theory Spec2Isabelle
  imports Complex_Main "HOL-Library.Sublist" "HOL-Library.Log_Nat"
begin

section \<open>Numbers and raw trend items\<close>

text \<open>
  A JavaScript Number is modelled as an exact rational; a property that is missing on an object
  (reads as \<open>undefined\<close>) is \<open>None\<close>. Rounding of doubles, \<open>NaN\<close> and the infinities are
  outside the model. Times are milliseconds since the epoch, as \<open>Date.now()\<close> returns them.
\<close>

record raw_metrics =
  rm_views :: "rat option"
  rm_likes :: "rat option"
  rm_comments :: "rat option"
  rm_shares :: "rat option"
  rm_growth :: "rat option"
  rm_uses :: "rat option"
  rm_engagementRate :: "rat option"

record audio_track =
  audio_id :: "string option"
  audio_title :: "string option"
  audio_artist :: "string option"

record raw_item =
  r_id :: string
  r_title :: "string option"
  r_description :: "string option"
  r_hashtags :: "string list option"
  r_audioTrack :: "audio_track option"
  r_metrics :: "raw_metrics option"
  r_niche :: "string list option"
  r_relevanceScore :: "rat option"
  r_originalUrl :: "string option"
  r_thumbnailUrl :: "string option"
  r_duration :: "rat option"
  r_language :: "string option"
  r_region :: "string option"

text \<open>\<open>data.metrics?.field\<close>: optional chaining through a possibly missing metrics object.\<close>

definition metric :: "(raw_metrics \<Rightarrow> rat option) \<Rightarrow> raw_item \<Rightarrow> rat option" where
  "metric f data = (case r_metrics data of None \<Rightarrow> None | Some m \<Rightarrow> f m)"

text \<open>\<open>x > c\<close> where \<open>x\<close> may be \<open>undefined\<close>: the comparison is then false.\<close>

definition gt :: "rat option \<Rightarrow> rat \<Rightarrow> bool" where
  "gt x c = (case x of None \<Rightarrow> False | Some v \<Rightarrow> c < v)"

text \<open>\<open>x || 0\<close> on a number: \<open>undefined\<close> and \<open>0\<close> both give \<open>0\<close>.\<close>

definition or0 :: "rat option \<Rightarrow> rat" where
  "or0 x = (case x of None \<Rightarrow> 0 | Some v \<Rightarrow> v)"

section \<open>Relevance scorer and engagement rate (socialMediaService.js)\<close>

definition calculateEngagementRate :: "raw_metrics option \<Rightarrow> rat" where
  "calculateEngagementRate metrics =
     (case metrics of
        None \<Rightarrow> 0
      | Some m \<Rightarrow>
          (case rm_views m of
             None \<Rightarrow> 0
           | Some v \<Rightarrow>
               if v = 0 then 0
               else
                 (let totalEngagement = or0 (rm_likes m) + or0 (rm_comments m) + or0 (rm_shares m)
                  in (totalEngagement / v) * 100)))"

definition calculateRelevanceScore :: "raw_item \<Rightarrow> rat" where
  "calculateRelevanceScore data =
     (let score = 50;
          score = (if gt (metric rm_engagementRate data) 5 then score + 20
                   else if gt (metric rm_engagementRate data) 2 then score + 10
                   else score);
          score = (if gt (metric rm_growth data) 1000 then score + 15
                   else if gt (metric rm_growth data) 100 then score + 10
                   else score);
          score = (if gt (metric rm_views data) 1000000 then score + 15
                   else if gt (metric rm_views data) 100000 then score + 10
                   else score)
      in min 100 (max 0 score))"

section \<open>Niche classifier (socialMediaService.js)\<close>

text \<open>
  Strings are lists of 8-bit characters; \<open>toLowerCase\<close> maps the ASCII capitals to small
  letters and leaves every other character alone. A template literal renders a missing property
  as the text \<open>undefined\<close>.
\<close>

definition lowerChar :: "char \<Rightarrow> char" where
  "lowerChar c =
     (case map_of (zip ''ABCDEFGHIJKLMNOPQRSTUVWXYZ'' ''abcdefghijklmnopqrstuvwxyz'') c of
        None \<Rightarrow> c
      | Some l \<Rightarrow> l)"

definition toLowerCase :: "string \<Rightarrow> string" where
  "toLowerCase s = map lowerChar s"

definition template :: "string option \<Rightarrow> string" where
  "template x = (case x of None \<Rightarrow> ''undefined'' | Some s \<Rightarrow> s)"

text \<open>\<open>text.includes(keyword)\<close>: the keyword occurs in the text as a contiguous run.\<close>

fun str_includes :: "string \<Rightarrow> string \<Rightarrow> bool" where
  "str_includes [] keyword = (keyword = [])"
| "str_includes (c # cs) keyword = (prefix keyword (c # cs) \<or> str_includes cs keyword)"

definition nicheKeywords :: "(string \<times> string list) list" where
  "nicheKeywords =
     [(''fitness'', [''workout'', ''gym'', ''fitness'', ''exercise'', ''health'', ''training'']),
      (''beauty'', [''makeup'', ''skincare'', ''beauty'', ''cosmetics'', ''hair'', ''style'']),
      (''food'', [''recipe'', ''cooking'', ''food'', ''kitchen'', ''chef'', ''meal'']),
      (''travel'', [''travel'', ''vacation'', ''trip'', ''destination'', ''adventure'']),
      (''tech'', [''technology'', ''tech'', ''gadget'', ''app'', ''software'', ''ai'']),
      (''lifestyle'', [''lifestyle'', ''daily'', ''routine'', ''life'', ''vlog'']),
      (''entertainment'', [''funny'', ''comedy'', ''entertainment'', ''meme'', ''viral'']),
      (''education'', [''learn'', ''tutorial'', ''education'', ''how to'', ''tips'', ''guide''])]"

definition niche_text :: "raw_item \<Rightarrow> string" where
  "niche_text data = toLowerCase (template (r_title data) @ '' '' @ template (r_description data))"

definition detectNiche :: "raw_item \<Rightarrow> string list" where
  "detectNiche data =
     (let text = niche_text data;
          niches = map fst (filter (\<lambda>(niche, keywords).
                                      list_ex (\<lambda>keyword. str_includes text keyword) keywords)
                                   nicheKeywords)
      in if length niches > 0 then niches else [''general''])"

section \<open>Trend documents and normalization (Trend.js, socialMediaService.js)\<close>

record trend_metrics =
  views :: rat
  uses :: rat
  growth :: rat
  engagementRate :: rat

record trend_metadata =
  originalUrl :: string
  thumbnailUrl :: string
  duration :: rat
  language :: string
  region :: string

text \<open>The object built by \<open>normalizeTrendData\<close>.\<close>

record trend_data =
  platform :: string
  trendId :: string
  title :: string
  description :: string
  hashtags :: "string list"
  audioTrack :: audio_track
  metrics :: trend_metrics
  niche :: "string list"
  relevanceScore :: rat
  metadata :: trend_metadata

text \<open>
  A stored Trend document: the normalized fields, the identifier the database gives the
  document, and the lifecycle fields of the schema. The \<open>updatedAt\<close> stamp that the schema's
  timestamps option keeps is written by the database library on every save and read by no code
  of the repository; it is not part of the model.
\<close>

record trend = trend_data +
  doc_id :: nat
  isActive :: bool
  expiresAt :: int
  createdAt :: int

text \<open>Decimal rendering of a number inside a template literal.\<close>

fun decimal :: "nat \<Rightarrow> string" where
  "decimal n =
     (if n < 10 then [''0123456789'' ! n]
      else decimal (n div 10) @ [''0123456789'' ! (n mod 10)])"

declare decimal.simps [simp del]

definition string_of_int :: "int \<Rightarrow> string" where
  "string_of_int i = (if i < 0 then ''-'' @ decimal (nat (- i)) else decimal (nat i))"

text \<open>\<open>x || d\<close> on strings: a missing or empty string gives the default.\<close>

definition or_str :: "string option \<Rightarrow> string \<Rightarrow> string" where
  "or_str x d = (case x of None \<Rightarrow> d | Some s \<Rightarrow> if s = [] then d else s)"

definition empty_audio :: audio_track where
  "empty_audio = \<lparr>audio_id = None, audio_title = None, audio_artist = None\<rparr>"

definition normalizeTrendData :: "int \<Rightarrow> string \<Rightarrow> raw_item \<Rightarrow> trend_data" where
  "normalizeTrendData now pf rawData =
     \<lparr>platform = pf,
      trendId = pf @ ''_'' @ r_id rawData @ ''_'' @ string_of_int now,
      title = or_str (r_title rawData) [],
      description = or_str (r_description rawData) [],
      hashtags = (case r_hashtags rawData of None \<Rightarrow> [] | Some hs \<Rightarrow> hs),
      audioTrack = (case r_audioTrack rawData of None \<Rightarrow> empty_audio | Some a \<Rightarrow> a),
      metrics = \<lparr>views = or0 (metric rm_views rawData),
                 uses = or0 (metric rm_uses rawData),
                 growth = or0 (metric rm_growth rawData),
                 engagementRate = calculateEngagementRate (r_metrics rawData)\<rparr>,
      niche = (case r_niche rawData of None \<Rightarrow> detectNiche rawData | Some ns \<Rightarrow> ns),
      relevanceScore =
        (case r_relevanceScore rawData of
           None \<Rightarrow> calculateRelevanceScore rawData
         | Some v \<Rightarrow> if v = 0 then calculateRelevanceScore rawData else v),
      metadata = \<lparr>originalUrl = or_str (r_originalUrl rawData) [],
                  thumbnailUrl = or_str (r_thumbnailUrl rawData) [],
                  duration = or0 (r_duration rawData),
                  language = or_str (r_language rawData) ''en'',
                  region = or_str (r_region rawData) ''US''\<rparr>\<rparr>"

section \<open>The trend store (socialMediaService.js, storeTrends)\<close>

text \<open>
  The collection is the list of its documents in scan order. A write can be rejected by the
  database (a schema validator, a lost connection): \<open>db d\<close> is the error raised when
  document \<open>d\<close> is saved, or \<open>None\<close> when the write is accepted. \<open>save\<close> replaces the
  stored document with the same identifier, or inserts the document when there is none.
\<close>

datatype error = Error string

type_synonym database = "trend \<Rightarrow> error option"

definition findOne_trendId :: "string \<Rightarrow> trend list \<Rightarrow> trend option" where
  "findOne_trendId tid store = find (\<lambda>d. trendId d = tid) store"

definition fresh_id :: "trend list \<Rightarrow> nat" where
  "fresh_id store = Suc (fold max (map doc_id store) 0)"

definition save :: "database \<Rightarrow> trend \<Rightarrow> trend list \<Rightarrow> error + trend list" where
  "save db d store =
     (case db d of
        Some e \<Rightarrow> Inl e
      | None \<Rightarrow>
          Inr (if doc_id d \<in> set (map doc_id store)
               then map (\<lambda>x. if doc_id x = doc_id d then d else x) store
               else store @ [d]))"

text \<open>
  The schema declares the elements of \<open>hashtags\<close> and \<open>niche\<close> with \<open>trim: true\<close>:
  whenever such a field of a document is set, white space is removed from both ends of every
  element. White space is the ASCII white space (space, tab, line feed, vertical tab, form feed,
  carriage return).
\<close>

definition is_space :: "char \<Rightarrow> bool" where
  "is_space c = (c \<in> set [CHR '' '', CHR 0x09, CHR 0x0A, CHR 0x0B, CHR 0x0C, CHR 0x0D])"

definition trim :: "string \<Rightarrow> string" where
  "trim s = rev (dropWhile is_space (rev (dropWhile is_space s)))"

text \<open>\<open>new Trend(trendData)\<close>: the schema defaults fill the lifecycle fields.\<close>

definition new_Trend :: "int \<Rightarrow> nat \<Rightarrow> trend_data \<Rightarrow> trend" where
  "new_Trend now i trendData =
     \<lparr>platform = platform trendData, trendId = trendId trendData, title = title trendData,
      description = description trendData, hashtags = map trim (hashtags trendData),
      audioTrack = audioTrack trendData, metrics = metrics trendData,
      niche = map trim (niche trendData),
      relevanceScore = relevanceScore trendData, metadata = metadata trendData,
      doc_id = i, isActive = True, expiresAt = now + 7 * 24 * 60 * 60 * 1000,
      createdAt = now\<rparr>"

text \<open>\<open>Object.assign(existingTrend, trendData)\<close>: every property of the normalized object is
  copied over the stored document, through the same setters; the other fields stay.\<close>

definition assign :: "trend \<Rightarrow> trend_data \<Rightarrow> trend" where
  "assign existingTrend trendData =
     existingTrend\<lparr>platform := platform trendData, trendId := trendId trendData,
       title := title trendData, description := description trendData,
       hashtags := map trim (hashtags trendData), audioTrack := audioTrack trendData,
       metrics := metrics trendData, niche := map trim (niche trendData),
       relevanceScore := relevanceScore trendData, metadata := metadata trendData\<rparr>"

fun storeTrends_loop ::
  "database \<Rightarrow> int \<Rightarrow> trend_data list \<Rightarrow> trend list \<Rightarrow> trend list
     \<Rightarrow> trend list \<times> (error + trend list)" where
  "storeTrends_loop db now [] store storedTrends = (store, Inr storedTrends)"
| "storeTrends_loop db now (trendData # rest) store storedTrends =
     (let doc = (case findOne_trendId (trendId trendData) store of
                   Some existingTrend \<Rightarrow> assign existingTrend trendData
                 | None \<Rightarrow> new_Trend now (fresh_id store) trendData)
      in case save db doc store of
           Inl e \<Rightarrow> (store, Inl e)
         | Inr store' \<Rightarrow> storeTrends_loop db now rest store' (storedTrends @ [doc]))"

definition storeTrends ::
  "database \<Rightarrow> int \<Rightarrow> trend_data list \<Rightarrow> trend list \<Rightarrow> trend list \<times> (error + trend list)"
  where
  "storeTrends db now trends store =
     (case storeTrends_loop db now trends store [] of
        (store', Inl e) \<Rightarrow> (store', Inl (Error ''Failed to store trends in database''))
      | (store', Inr storedTrends) \<Rightarrow> (store', Inr storedTrends))"

text \<open>One ingestion of a platform item through the normalize-and-store path.\<close>

definition ingest ::
  "database \<Rightarrow> int \<Rightarrow> string \<Rightarrow> raw_item \<Rightarrow> trend list \<Rightarrow> trend list \<times> (error + trend list)"
  where
  "ingest db now pf rawData store = storeTrends db now [normalizeTrendData now pf rawData] store"

text \<open>A database that accepts every write.\<close>

definition accept_all :: database where
  "accept_all d = None"

text \<open>
  The validators of the Trend schema, run by every save on the whole document: \<open>platform\<close>
  is required and one of the three platforms, \<open>trendId\<close> and \<open>title\<close> are required (an
  empty string does not pass), \<open>relevanceScore\<close> lies between 0 and 100.
\<close>

definition trend_schema :: database where
  "trend_schema d =
     (if platform d \<in> set [''instagram'', ''tiktok'', ''youtube''] \<and> trendId d \<noteq> []
         \<and> title d \<noteq> [] \<and> 0 \<le> relevanceScore d \<and> relevanceScore d \<le> 100
      then None else Some (Error ''Trend validation failed''))"

section \<open>Trend refresh (socialMediaService.js, trend scheduler)\<close>

text \<open>
  The data source of each platform is a collaborator that may fail. In this version of the
  code Instagram and TikTok are served by the mock generators below and YouTube by its mock
  generator or, when an API key is configured, by the videos endpoint; \<open>youtube_api\<close> is the
  outcome of that request, its items already mapped to raw trend items.
\<close>

record sources =
  instagram_source :: "string option \<Rightarrow> error + raw_item list"
  tiktok_source :: "string option \<Rightarrow> error + raw_item list"
  youtube_mock :: "string option \<Rightarrow> error + raw_item list"
  youtube_api_key :: bool
  youtube_api :: "error + raw_item list"

definition mock_item ::
  "string \<Rightarrow> string \<Rightarrow> string \<Rightarrow> string list \<Rightarrow> audio_track option \<Rightarrow> rat \<Rightarrow> rat \<Rightarrow> rat \<Rightarrow> rat
     \<Rightarrow> string list \<Rightarrow> string \<Rightarrow> rat option \<Rightarrow> raw_item" where
  "mock_item i t d hs audio v l c g ns thumb dur =
     \<lparr>r_id = i, r_title = Some t, r_description = Some d, r_hashtags = Some hs,
      r_audioTrack = audio,
      r_metrics = Some \<lparr>rm_views = Some v, rm_likes = Some l, rm_comments = Some c,
                        rm_shares = None, rm_growth = Some g, rm_uses = None,
                        rm_engagementRate = None\<rparr>,
      r_niche = Some ns, r_relevanceScore = None, r_originalUrl = None,
      r_thumbnailUrl = Some thumb, r_duration = dur, r_language = None, r_region = None\<rparr>"

text \<open>\<open>niche ? mockTrends.filter(trend => trend.niche.includes(niche)) : mockTrends\<close>\<close>

definition filter_mock :: "string option \<Rightarrow> raw_item list \<Rightarrow> raw_item list" where
  "filter_mock nicheFilter mockTrends =
     (case nicheFilter of
        None \<Rightarrow> mockTrends
      | Some n \<Rightarrow>
          if n = [] then mockTrends
          else filter (\<lambda>trend. case r_niche trend of None \<Rightarrow> False | Some ns \<Rightarrow> n \<in> set ns)
                 mockTrends)"

definition generateMockInstagramTrends :: "string option \<Rightarrow> raw_item list" where
  "generateMockInstagramTrends nicheFilter =
     filter_mock nicheFilter
       [mock_item ''ig_trend_1'' ''Morning Routine Aesthetic''
          ''Start your day with intention and style''
          [''morningroutine'', ''aesthetic'', ''selfcare'', ''lifestyle''] None
          250000 15000 800 1200 [''lifestyle'', ''beauty''] ''https://example.com/thumb1.jpg'' None,
        mock_item ''ig_trend_2'' ''Quick Workout Challenge''
          ''5-minute HIIT workout you can do anywhere''
          [''fitness'', ''workout'', ''hiit'', ''challenge''] None
          180000 12000 600 800 [''fitness'', ''health''] ''https://example.com/thumb2.jpg'' None]"

definition generateMockTikTokTrends :: "string option \<Rightarrow> raw_item list" where
  "generateMockTikTokTrends nicheFilter =
     filter_mock nicheFilter
       [mock_item ''tt_trend_1'' ''Dance Challenge 2024'' ''New viral dance everyone is doing''
          [''dance'', ''viral'', ''challenge'', ''fyp'']
          (Some \<lparr>audio_id = Some ''audio_1'', audio_title = Some ''Trending Beat'',
                  audio_artist = Some ''Unknown''\<rparr>)
          500000 35000 2000 2500 [''entertainment'', ''dance''] ''https://example.com/thumb3.jpg''
          None,
        mock_item ''tt_trend_2'' ''Cooking Hack'' ''Mind-blowing kitchen trick''
          [''cooking'', ''hack'', ''food'', ''kitchen''] None
          320000 18000 900 1500 [''food'', ''lifestyle''] ''https://example.com/thumb4.jpg'' None]"

definition generateMockYouTubeTrends :: "string option \<Rightarrow> raw_item list" where
  "generateMockYouTubeTrends nicheFilter =
     filter_mock nicheFilter
       [mock_item ''yt_trend_1'' ''Ultimate Tech Review 2024''
          ''Reviewing the latest gadgets and tech innovations''
          [''tech'', ''review'', ''gadgets'', ''2024''] None
          800000 45000 3500 3000 [''tech'', ''education''] ''https://example.com/thumb5.jpg''
          (Some 720),
        mock_item ''yt_trend_2'' ''Travel Vlog: Hidden Gems''
          ''Discovering amazing places off the beaten path''
          [''travel'', ''vlog'', ''adventure'', ''explore''] None
          450000 28000 1800 1800 [''travel'', ''lifestyle''] ''https://example.com/thumb6.jpg''
          (Some 900)]"

definition matchesNiche :: "trend_data \<Rightarrow> string option \<Rightarrow> bool" where
  "matchesNiche trend nicheFilter =
     (case nicheFilter of
        None \<Rightarrow> True
      | Some f \<Rightarrow>
          if f = [] then True
          else list_ex (\<lambda>trendNiche.
                  list_ex (\<lambda>filterNiche.
                     str_includes (toLowerCase trendNiche) (toLowerCase filterNiche)) [f])
                 (niche trend))"

definition fetchInstagramTrends :: "sources \<Rightarrow> int \<Rightarrow> string option \<Rightarrow> error + trend_data list"
  where
  "fetchInstagramTrends src now nicheFilter =
     (case instagram_source src nicheFilter of
        Inl e \<Rightarrow> Inl (Error ''Failed to fetch Instagram trends'')
      | Inr mockTrends \<Rightarrow> Inr (map (normalizeTrendData now ''instagram'') mockTrends))"

definition fetchTikTokTrends :: "sources \<Rightarrow> int \<Rightarrow> string option \<Rightarrow> error + trend_data list"
  where
  "fetchTikTokTrends src now nicheFilter =
     (case tiktok_source src nicheFilter of
        Inl e \<Rightarrow> Inl (Error ''Failed to fetch TikTok trends'')
      | Inr mockTrends \<Rightarrow> Inr (map (normalizeTrendData now ''tiktok'') mockTrends))"

definition fetchYouTubeTrends :: "sources \<Rightarrow> int \<Rightarrow> string option \<Rightarrow> error + trend_data list"
  where
  "fetchYouTubeTrends src now nicheFilter =
     (if \<not> youtube_api_key src
      then (case youtube_mock src nicheFilter of
              Inl e \<Rightarrow> Inl (Error ''Failed to fetch YouTube trends'')
            | Inr mockTrends \<Rightarrow> Inr (map (normalizeTrendData now ''youtube'') mockTrends))
      else (case youtube_api src of
              Inl e \<Rightarrow> Inl (Error ''Failed to fetch YouTube trends'')
            | Inr items \<Rightarrow>
                Inr (filter (\<lambda>trend. matchesNiche trend nicheFilter)
                       (map (normalizeTrendData now ''youtube'') items))))"

text \<open>The value of a settled promise that is pushed to \<open>allTrends\<close>: nothing when it was
  rejected.\<close>

definition fulfilled :: "error + 'a list \<Rightarrow> 'a list" where
  "fulfilled settled = (case settled of Inl reason \<Rightarrow> [] | Inr v \<Rightarrow> v)"

definition fetchAndStoreTrends ::
  "database \<Rightarrow> sources \<Rightarrow> int \<Rightarrow> string option \<Rightarrow> trend list \<Rightarrow> trend list \<times> (error + trend list)"
  where
  "fetchAndStoreTrends db src now nicheFilter store =
     (let instagramTrends = fetchInstagramTrends src now nicheFilter;
          tiktokTrends = fetchTikTokTrends src now nicheFilter;
          youtubeTrends = fetchYouTubeTrends src now nicheFilter;
          allTrends = fulfilled instagramTrends @ fulfilled tiktokTrends @ fulfilled youtubeTrends
      in storeTrends db now allTrends store)"

definition fetchAllTrends ::
  "database \<Rightarrow> sources \<Rightarrow> int \<Rightarrow> trend list \<Rightarrow> trend list \<times> (error + trend list)" where
  "fetchAllTrends db src now store = fetchAndStoreTrends db src now None store"

definition popularNiches :: "string list" where
  "popularNiches = [''fitness'', ''beauty'', ''food'', ''travel'', ''tech'', ''lifestyle'',
                    ''entertainment'', ''education'']"

text \<open>The loop over the niches: a niche whose fetch-and-store throws is logged and skipped;
  after a successful one the job waits two seconds. The loop state is the clock, the store and
  the trends collected so far.\<close>

fun fetchNicheTrends_loop ::
  "database \<Rightarrow> sources \<Rightarrow> int \<Rightarrow> string list \<Rightarrow> trend list \<Rightarrow> trend list
     \<Rightarrow> int \<times> trend list \<times> trend list" where
  "fetchNicheTrends_loop db src now [] store allTrends = (now, store, allTrends)"
| "fetchNicheTrends_loop db src now (n # ns) store allTrends =
     (case fetchAndStoreTrends db src now (Some n) store of
        (store', Inr nicheTrends) \<Rightarrow>
          fetchNicheTrends_loop db src (now + 2000) ns store' (allTrends @ nicheTrends)
      | (store', Inl e) \<Rightarrow> fetchNicheTrends_loop db src now ns store' allTrends)"

definition fetchNicheTrends ::
  "database \<Rightarrow> sources \<Rightarrow> int \<Rightarrow> trend list \<Rightarrow> trend list \<times> (error + trend list)" where
  "fetchNicheTrends db src now store =
     (case fetchNicheTrends_loop db src now popularNiches store [] of
        (now', store', allTrends) \<Rightarrow> (store', Inr allTrends))"

text \<open>The callback that \<open>scheduleJob\<close> registers with the timer: it awaits the task and
  catches and logs whatever the task throws.\<close>

definition scheduledJob ::
  "(trend list \<Rightarrow> trend list \<times> (error + 'a)) \<Rightarrow> trend list \<Rightarrow> trend list \<times> (error + unit)" where
  "scheduledJob task store =
     (case task store of
        (store', Inr result) \<Rightarrow> (store', Inr ())
      | (store', Inl e) \<Rightarrow> (store', Inr ()))"

section \<open>Periodic re-scoring (Trend.js, trend scheduler)\<close>

text \<open>
  The trend score is computed in double arithmetic: every operation yields the double nearest
  to its exact result. The rounding is a parameter \<open>rnd\<close> of the functions below;
  \<open>binary64\<close> is round-to-nearest, ties to even, on a 53-bit significand (overflow and
  subnormal numbers are not modelled). The literals 0.3 and 0.4 are the rounded values of 3/10
  and 4/10. The clock is read once per run: \<open>now\<close> stands for \<open>new Date()\<close> in the query
  and for \<open>Date.now()\<close> in \<open>calculateTrendScore\<close>.
\<close>

type_synonym rounding = "rat \<Rightarrow> rat"

definition pow2 :: "int \<Rightarrow> rat" where
  "pow2 e = (if 0 \<le> e then 2 ^ nat e else 1 / 2 ^ nat (- e))"

definition round_half_even :: "rat \<Rightarrow> int" where
  "round_half_even q =
     (let f = \<lfloor>q\<rfloor>; r = q - of_int f
      in if r < 1 / 2 then f else if 1 / 2 < r then f + 1 else if even f then f else f + 1)"

definition binary64 :: rounding where
  "binary64 x =
     (if x = 0 then 0
      else
        (let (p, q) = quotient_of \<bar>x\<bar>;
             d = bitlen p - bitlen q;
             e = (if pow2 d \<le> \<bar>x\<bar> then d else d - 1);
             m = round_half_even (\<bar>x\<bar> / pow2 (e - 52))
         in sgn x * of_int m * pow2 (e - 52)))"

definition calculateTrendScore :: "rounding \<Rightarrow> int \<Rightarrow> trend \<Rightarrow> rat" where
  "calculateTrendScore rnd now t =
     (let ageInHours = rnd (of_int (now - createdAt t) / (1000 * 60 * 60));
          recencyScore = max 0 (rnd (100 - rnd (rnd (ageInHours / 24) * 10)));
          engagementScore = min 100 (rnd (engagementRate (metrics t) * 10));
          growthScore = min 100 (rnd (growth (metrics t) / 1000))
      in rnd (rnd (rnd (recencyScore * rnd (3 / 10)) + rnd (engagementScore * rnd (4 / 10)))
              + rnd (growthScore * rnd (3 / 10))))"

fun updateTrendScores_loop ::
  "database \<Rightarrow> rounding \<Rightarrow> int \<Rightarrow> trend list \<Rightarrow> trend list \<Rightarrow> nat
     \<Rightarrow> trend list \<times> (error + nat)" where
  "updateTrendScores_loop db rnd now [] store updatedCount = (store, Inr updatedCount)"
| "updateTrendScores_loop db rnd now (trend # trends) store updatedCount =
     (let newScore = calculateTrendScore rnd now trend
      in if 5 < \<bar>rnd (relevanceScore trend - newScore)\<bar>
         then (case save db (trend\<lparr>relevanceScore := newScore\<rparr>) store of
                 Inl e \<Rightarrow> (store, Inl e)
               | Inr store' \<Rightarrow>
                   updateTrendScores_loop db rnd now trends store' (updatedCount + 1))
         else updateTrendScores_loop db rnd now trends store updatedCount)"

definition updateTrendScores ::
  "database \<Rightarrow> rounding \<Rightarrow> int \<Rightarrow> trend list \<Rightarrow> trend list \<times> (error + nat)" where
  "updateTrendScores db rnd now store =
     (let trends = filter (\<lambda>t. isActive t \<and> now < expiresAt t) store
      in updateTrendScores_loop db rnd now trends store 0)"

section \<open>Analytics records (Analytics model, analytics scheduler)\<close>

text \<open>
  An analytics document with the fields the growth computation and the cleanup job read or
  write, and its database identifier. Content reference, demographics, hourly breakdown and
  platform-specific metrics are carried along untouched by both and are left out.
\<close>

record analytics_metrics =
  a_views :: rat
  a_likes :: rat
  a_shares :: rat
  a_comments :: rat
  a_saves :: rat
  a_engagementRate :: rat
  a_reachRate :: rat
  a_impressions :: rat
  a_reach :: rat

record performance =
  dailyGrowth :: rat
  weeklyGrowth :: rat
  monthlyGrowth :: rat

record analytics =
  a_id :: nat
  a_userId :: string
  a_platform :: string
  a_accountId :: string
  a_mediaId :: string
  a_mediaType :: string
  a_metrics :: analytics_metrics
  a_performance :: performance
  a_timestamp :: int
  a_syncedAt :: int
  a_isActive :: bool
  a_createdAt :: int

type_synonym analytics_database = "analytics \<Rightarrow> error option"

definition a_save ::
  "analytics_database \<Rightarrow> analytics \<Rightarrow> analytics list \<Rightarrow> error + analytics list" where
  "a_save db d store =
     (case db d of
        Some e \<Rightarrow> Inl e
      | None \<Rightarrow>
          Inr (if a_id d \<in> set (map a_id store)
               then map (\<lambda>x. if a_id x = a_id d then d else x) store
               else store @ [d]))"

text \<open>
  The query of \<open>calculateGrowthRates\<close>: the active documents of the same user, platform and
  media with an earlier timestamp, sorted by timestamp descending, first one taken (among equal
  timestamps, the first in scan order).
\<close>

definition findPrevious :: "analytics list \<Rightarrow> analytics \<Rightarrow> analytics option" where
  "findPrevious store this =
     (case filter (\<lambda>d. a_userId d = a_userId this \<and> a_platform d = a_platform this
                        \<and> a_mediaId d = a_mediaId this
                        \<and> a_timestamp d < a_timestamp this \<and> a_isActive d) store of
        [] \<Rightarrow> None
      | c # cs \<Rightarrow>
          Some (fold (\<lambda>d best. if a_timestamp best < a_timestamp d then d else best) cs c))"

definition calculateGrowthRates ::
  "analytics_database \<Rightarrow> analytics list \<Rightarrow> analytics \<Rightarrow> analytics \<times> (error + analytics list)"
  where
  "calculateGrowthRates db store this =
     (let this' =
        (case findPrevious store this of
           None \<Rightarrow> this
         | Some previousAnalytics \<Rightarrow>
             (let timeDiff = a_timestamp this - a_timestamp previousAnalytics;
                  daysDiff = (of_int timeDiff :: rat) / (1000 * 60 * 60 * 24);
                  delta = a_views (a_metrics this) - a_views (a_metrics previousAnalytics)
              in if daysDiff \<le> 1
                 then this\<lparr>a_performance := (a_performance this)\<lparr>dailyGrowth := delta\<rparr>\<rparr>
                 else if daysDiff \<le> 7
                 then this\<lparr>a_performance := (a_performance this)\<lparr>weeklyGrowth := delta\<rparr>\<rparr>
                 else if daysDiff \<le> 30
                 then this\<lparr>a_performance := (a_performance this)\<lparr>monthlyGrowth := delta\<rparr>\<rparr>
                 else this))
      in (this', a_save db this' store))"

text \<open>
  The weekly cleanup. \<open>group_by_media\<close> is the aggregation stage that groups the collection by
  (userId, platform, mediaId) and pushes the identifiers of each group in scan order.
  The cutoff is computed by \<open>setDate(getDate() - 90)\<close>, in the local time of the server:
  \<open>days_ago now n\<close> is the instant with the same local wall-clock time \<open>n\<close> calendar days
  before \<open>now\<close>, a parameter of the job that depends on the time zone; in UTC it is
  \<open>utc_days_ago\<close>. The database operations of the cleanup are taken to succeed; the job
  catches and logs a rejected one.
\<close>

type_synonym calendar = "int \<Rightarrow> int \<Rightarrow> int"

definition utc_days_ago :: calendar where
  "utc_days_ago now n = now - n * (24 * 60 * 60 * 1000)"

type_synonym media_key = "string \<times> string \<times> string"

definition media_key :: "analytics \<Rightarrow> media_key" where
  "media_key d = (a_userId d, a_platform d, a_mediaId d)"

definition group_by_media :: "analytics list \<Rightarrow> (media_key \<times> nat list) list" where
  "group_by_media store =
     map (\<lambda>k. (k, map a_id (filter (\<lambda>d. media_key d = k) store)))
         (remdups (map media_key store))"

definition deleteMany_ids :: "nat list \<Rightarrow> analytics list \<Rightarrow> analytics list" where
  "deleteMany_ids ids store = filter (\<lambda>d. a_id d \<notin> set ids) store"

definition performWeeklyCleanup :: "calendar \<Rightarrow> int \<Rightarrow> analytics list \<Rightarrow> analytics list"
  where
  "performWeeklyCleanup days_ago now store =
     (let cutoffDate = days_ago now 90;
          store1 = filter (\<lambda>d. \<not> (a_timestamp d < cutoffDate \<and> \<not> a_isActive d)) store;
          duplicates = filter (\<lambda>(k, docs). 1 < length docs) (group_by_media store1)
      in fold (\<lambda>(k, docs) s. deleteMany_ids (drop 1 docs) s) duplicates store1)"

section \<open>Properties of the relevance scorer\<close>

text \<open>
  The three additive contributions of the scorer, named for the proofs only; \<open>score_sum\<close>
  relates them to the source function.
\<close>

definition engagementBoost :: "raw_item \<Rightarrow> rat" where
  "engagementBoost data =
     (if gt (metric rm_engagementRate data) 5 then 20
      else if gt (metric rm_engagementRate data) 2 then 10 else 0)"

definition growthBoost :: "raw_item \<Rightarrow> rat" where
  "growthBoost data =
     (if gt (metric rm_growth data) 1000 then 15
      else if gt (metric rm_growth data) 100 then 10 else 0)"

definition viewsBoost :: "raw_item \<Rightarrow> rat" where
  "viewsBoost data =
     (if gt (metric rm_views data) 1000000 then 15
      else if gt (metric rm_views data) 100000 then 10 else 0)"

lemma score_sum:
  "calculateRelevanceScore data = 50 + engagementBoost data + growthBoost data + viewsBoost data"
  unfolding calculateRelevanceScore_def engagementBoost_def growthBoost_def viewsBoost_def Let_def
  by (cases "gt (metric rm_engagementRate data) 5"; cases "gt (metric rm_engagementRate data) 2";
      cases "gt (metric rm_growth data) 1000"; cases "gt (metric rm_growth data) 100";
      cases "gt (metric rm_views data) 1000000"; cases "gt (metric rm_views data) 100000";
      simp)

lemma step_mono:
  fixes a b lo hi x y :: rat
  assumes "a \<le> b" and "0 \<le> y" and "y \<le> x" and "lo \<le> hi"
  shows "(if gt (Some a) hi then x else if gt (Some a) lo then y else 0)
           \<le> (if gt (Some b) hi then x else if gt (Some b) lo then y else 0)"
  using assms by (auto simp: gt_def)

text \<open>
  Claim C7. For every input object, whatever fields are missing and whatever their values, the
  relevance scorer returns an integer between 0 and 100 inclusive.
\<close>

theorem calculateRelevanceScore_bounded:
  "\<exists>k::int. calculateRelevanceScore data = of_int k \<and> 0 \<le> k \<and> k \<le> 100"
proof -
  define ke :: int where
    "ke = (if gt (metric rm_engagementRate data) 5 then 20
           else if gt (metric rm_engagementRate data) 2 then 10 else 0)"
  define kg :: int where
    "kg = (if gt (metric rm_growth data) 1000 then 15
           else if gt (metric rm_growth data) 100 then 10 else 0)"
  define kv :: int where
    "kv = (if gt (metric rm_views data) 1000000 then 15
           else if gt (metric rm_views data) 100000 then 10 else 0)"
  have e: "engagementBoost data = of_int ke" and "0 \<le> ke" and "ke \<le> 20"
    by (simp_all add: ke_def engagementBoost_def)
  moreover have g: "growthBoost data = of_int kg" and "0 \<le> kg" and "kg \<le> 15"
    by (simp_all add: kg_def growthBoost_def)
  moreover have v: "viewsBoost data = of_int kv" and "0 \<le> kv" and "kv \<le> 15"
    by (simp_all add: kv_def viewsBoost_def)
  ultimately have "calculateRelevanceScore data = of_int (50 + ke + kg + kv)"
    and "0 \<le> 50 + ke + kg + kv" and "50 + ke + kg + kv \<le> 100"
    by (simp_all add: score_sum)
  then show ?thesis by blast
qed

text \<open>
  Claim C8. The relevance scorer is monotonic non-decreasing in each of engagementRate, growth
  and views: raising one of these fields of the metrics object from \<open>a\<close> to \<open>b \<ge> a\<close> and leaving
  everything else as it is never lowers the score.
\<close>

theorem calculateRelevanceScore_mono:
  assumes "r_metrics d = Some m" and "a \<le> b"
  shows "(rm_engagementRate m = Some a \<longrightarrow>
            calculateRelevanceScore d
              \<le> calculateRelevanceScore (d\<lparr>r_metrics := Some (m\<lparr>rm_engagementRate := Some b\<rparr>)\<rparr>))
       \<and> (rm_growth m = Some a \<longrightarrow>
            calculateRelevanceScore d
              \<le> calculateRelevanceScore (d\<lparr>r_metrics := Some (m\<lparr>rm_growth := Some b\<rparr>)\<rparr>))
       \<and> (rm_views m = Some a \<longrightarrow>
            calculateRelevanceScore d
              \<le> calculateRelevanceScore (d\<lparr>r_metrics := Some (m\<lparr>rm_views := Some b\<rparr>)\<rparr>))"
proof (intro conjI impI)
  let ?d = "d\<lparr>r_metrics := Some (m\<lparr>rm_engagementRate := Some b\<rparr>)\<rparr>"
  assume f: "rm_engagementRate m = Some a"
  have "engagementBoost d = (if gt (Some a) 5 then 20 else if gt (Some a) 2 then 10 else 0)"
    and "engagementBoost ?d = (if gt (Some b) 5 then 20 else if gt (Some b) 2 then 10 else 0)"
    and "growthBoost ?d = growthBoost d" and "viewsBoost ?d = viewsBoost d"
    using assms f
    by (simp_all add: engagementBoost_def growthBoost_def viewsBoost_def metric_def)
  moreover have "(if gt (Some a) 5 then 20 else if gt (Some a) 2 then 10 else (0::rat))
                   \<le> (if gt (Some b) 5 then 20 else if gt (Some b) 2 then 10 else 0)"
    by (rule step_mono) (use assms in simp_all)
  ultimately show "calculateRelevanceScore d \<le> calculateRelevanceScore ?d"
    by (simp only: score_sum add_left_mono add_right_mono)
next
  let ?d = "d\<lparr>r_metrics := Some (m\<lparr>rm_growth := Some b\<rparr>)\<rparr>"
  assume f: "rm_growth m = Some a"
  have "growthBoost d = (if gt (Some a) 1000 then 15 else if gt (Some a) 100 then 10 else 0)"
    and "growthBoost ?d = (if gt (Some b) 1000 then 15 else if gt (Some b) 100 then 10 else 0)"
    and "engagementBoost ?d = engagementBoost d" and "viewsBoost ?d = viewsBoost d"
    using assms f
    by (simp_all add: engagementBoost_def growthBoost_def viewsBoost_def metric_def)
  moreover have "(if gt (Some a) 1000 then 15 else if gt (Some a) 100 then 10 else (0::rat))
                   \<le> (if gt (Some b) 1000 then 15 else if gt (Some b) 100 then 10 else 0)"
    by (rule step_mono) (use assms in simp_all)
  ultimately show "calculateRelevanceScore d \<le> calculateRelevanceScore ?d"
    by (simp only: score_sum add_left_mono add_right_mono)
next
  let ?d = "d\<lparr>r_metrics := Some (m\<lparr>rm_views := Some b\<rparr>)\<rparr>"
  assume f: "rm_views m = Some a"
  have "viewsBoost d = (if gt (Some a) 1000000 then 15 else if gt (Some a) 100000 then 10 else 0)"
    and "viewsBoost ?d = (if gt (Some b) 1000000 then 15 else if gt (Some b) 100000 then 10 else 0)"
    and "engagementBoost ?d = engagementBoost d" and "growthBoost ?d = growthBoost d"
    using assms f
    by (simp_all add: engagementBoost_def growthBoost_def viewsBoost_def metric_def)
  moreover have "(if gt (Some a) 1000000 then 15 else if gt (Some a) 100000 then 10 else (0::rat))
                   \<le> (if gt (Some b) 1000000 then 15 else if gt (Some b) 100000 then 10 else 0)"
    by (rule step_mono) (use assms in simp_all)
  ultimately show "calculateRelevanceScore d \<le> calculateRelevanceScore ?d"
    by (simp only: score_sum add_left_mono add_right_mono)
qed

definition mono_example :: raw_item where
  "mono_example =
     \<lparr>r_id = ''a'', r_title = None, r_description = None, r_hashtags = None,
      r_audioTrack = None,
      r_metrics = Some \<lparr>rm_views = Some 100000, rm_likes = None, rm_comments = None,
                        rm_shares = None, rm_growth = Some 100, rm_uses = None,
                        rm_engagementRate = Some 2\<rparr>,
      r_niche = None, r_relevanceScore = None, r_originalUrl = None, r_thumbnailUrl = None,
      r_duration = None, r_language = None, r_region = None\<rparr>"

theorem calculateRelevanceScore_mono_witness:
  "calculateRelevanceScore mono_example = 50
   \<and> calculateRelevanceScore
        (mono_example\<lparr>r_metrics := Some ((the (r_metrics mono_example))\<lparr>rm_engagementRate := Some 6\<rparr>)\<rparr>) = 70
   \<and> calculateRelevanceScore
        (mono_example\<lparr>r_metrics := Some ((the (r_metrics mono_example))\<lparr>rm_growth := Some 101\<rparr>)\<rparr>) = 60
   \<and> calculateRelevanceScore
        (mono_example\<lparr>r_metrics := Some ((the (r_metrics mono_example))\<lparr>rm_views := Some 1000001\<rparr>)\<rparr>) = 65"
proof -
  have m: "r_metrics mono_example = Some (the (r_metrics mono_example))"
    by (simp add: mono_example_def)
  have "(2::rat) \<le> 6" and "(100::rat) \<le> 101" and "(100000::rat) \<le> 1000001" by simp_all
  note calculateRelevanceScore_mono [OF m \<open>(2::rat) \<le> 6\<close>]
       calculateRelevanceScore_mono [OF m \<open>(100::rat) \<le> 101\<close>]
       calculateRelevanceScore_mono [OF m \<open>(100000::rat) \<le> 1000001\<close>]
  then show ?thesis
    by (simp add: mono_example_def score_sum engagementBoost_def growthBoost_def viewsBoost_def
          metric_def gt_def)
qed

section \<open>Range of the engagement rate\<close>

definition likes_exceed_views :: raw_metrics where
  "likes_exceed_views =
     \<lparr>rm_views = Some 10, rm_likes = Some 20, rm_comments = None, rm_shares = None,
      rm_growth = None, rm_uses = None, rm_engagementRate = None\<rparr>"

text \<open>
  Claim C10 as stated (the derived engagement rate always lies in [0,100]) fails: the rate is
  not clamped, so an item with more likes than views has a rate above 100.
\<close>

theorem calculateEngagementRate_above_100:
  "calculateEngagementRate (Some likes_exceed_views) = 200
   \<and> \<not> calculateEngagementRate (Some likes_exceed_views) \<le> 100"
  by (simp add: calculateEngagementRate_def likes_exceed_views_def or0_def)

text \<open>
  Claim C10, amended. The engagement rate computed during normalization is 0 when the metrics
  object is missing or its views are missing or zero (the division is not performed). Otherwise
  it is (likes + comments + shares) / views * 100 with missing counts read as 0, and this lies
  in [0,100] whenever views is positive, the three counts are non-negative and their sum does
  not exceed views.
\<close>

theorem calculateEngagementRate_range:
  "calculateEngagementRate None = 0
   \<and> (rm_views m = None \<or> rm_views m = Some 0 \<longrightarrow> calculateEngagementRate (Some m) = 0)
   \<and> (rm_views m = Some v \<and> v \<noteq> 0 \<longrightarrow>
        calculateEngagementRate (Some m)
          = (or0 (rm_likes m) + or0 (rm_comments m) + or0 (rm_shares m)) / v * 100)
   \<and> (rm_views m = Some v \<and> 0 < v \<and> 0 \<le> or0 (rm_likes m) \<and> 0 \<le> or0 (rm_comments m)
        \<and> 0 \<le> or0 (rm_shares m)
        \<and> or0 (rm_likes m) + or0 (rm_comments m) + or0 (rm_shares m) \<le> v \<longrightarrow>
        0 \<le> calculateEngagementRate (Some m) \<and> calculateEngagementRate (Some m) \<le> 100)"
proof (intro conjI impI)
  show "calculateEngagementRate None = 0"
    by (simp add: calculateEngagementRate_def)
  show "calculateEngagementRate (Some m) = 0" if "rm_views m = None \<or> rm_views m = Some 0"
    using that by (auto simp: calculateEngagementRate_def)
  show "calculateEngagementRate (Some m)
          = (or0 (rm_likes m) + or0 (rm_comments m) + or0 (rm_shares m)) / v * 100"
    if "rm_views m = Some v \<and> v \<noteq> 0"
    using that by (simp add: calculateEngagementRate_def)
  define t where "t = or0 (rm_likes m) + or0 (rm_comments m) + or0 (rm_shares m)"
  assume h: "rm_views m = Some v \<and> 0 < v \<and> 0 \<le> or0 (rm_likes m) \<and> 0 \<le> or0 (rm_comments m)
        \<and> 0 \<le> or0 (rm_shares m)
        \<and> or0 (rm_likes m) + or0 (rm_comments m) + or0 (rm_shares m) \<le> v"
  then have r: "calculateEngagementRate (Some m) = t / v * 100"
    by (simp add: calculateEngagementRate_def t_def)
  from h have "0 < v" and "0 \<le> t" and "t \<le> v" by (simp_all add: t_def)
  then have q: "0 \<le> t / v" "t / v \<le> 1" by simp_all
  have "0 \<le> q * 100 \<and> q * 100 \<le> 100" if "0 \<le> q" and "q \<le> 1" for q :: rat
    using that by simp
  from this [OF q]
  show "0 \<le> calculateEngagementRate (Some m)" and "calculateEngagementRate (Some m) \<le> 100"
    unfolding r by blast+
qed

definition rate_example :: raw_metrics where
  "rate_example =
     \<lparr>rm_views = Some 100000, rm_likes = Some 5000, rm_comments = Some 500,
      rm_shares = Some 200, rm_growth = None, rm_uses = None, rm_engagementRate = None\<rparr>"

theorem calculateEngagementRate_range_witness:
  "calculateEngagementRate (Some rate_example) = 57 / 10
   \<and> 0 \<le> calculateEngagementRate (Some rate_example)
   \<and> calculateEngagementRate (Some rate_example) \<le> 100
   \<and> calculateEngagementRate (Some (rate_example\<lparr>rm_views := Some 0\<rparr>)) = 0
   \<and> calculateEngagementRate (Some (rate_example\<lparr>rm_views := None\<rparr>)) = 0"
  using calculateEngagementRate_range [of rate_example 100000]
        calculateEngagementRate_range [of "rate_example\<lparr>rm_views := Some 0\<rparr>"]
        calculateEngagementRate_range [of "rate_example\<lparr>rm_views := None\<rparr>"]
  by (simp add: rate_example_def or0_def)

section \<open>Properties of the niche classifier\<close>

lemma str_includes_sublist: "str_includes s keyword \<longleftrightarrow> sublist keyword s"
  by (induction s) (simp_all add: sublist_Cons_right)

lemma general_not_a_niche: "''general'' \<notin> fst ` set nicheKeywords"
  by (simp add: nicheKeywords_def)

lemma detectNiche_cases:
  "detectNiche data =
     (if \<exists>(niche, keywords) \<in> set nicheKeywords. \<exists>keyword \<in> set keywords.
            sublist keyword (niche_text data)
      then map fst (filter (\<lambda>(niche, keywords).
                              \<exists>keyword \<in> set keywords. sublist keyword (niche_text data))
                           nicheKeywords)
      else [''general''])"
  by (auto simp: detectNiche_def Let_def list_ex_iff str_includes_sublist filter_empty_conv)

lemma lowerChar_other:
  "c \<notin> set ''ABCDEFGHIJKLMNOPQRSTUVWXYZ'' \<Longrightarrow> lowerChar c = c"
  by (simp add: lowerChar_def)

lemma toLowerCase_other:
  "set s \<inter> set ''ABCDEFGHIJKLMNOPQRSTUVWXYZ'' = {} \<Longrightarrow> toLowerCase s = s"
  unfolding toLowerCase_def by (rule map_idI, rule lowerChar_other) blast

definition raw_text :: "string option \<Rightarrow> string option \<Rightarrow> raw_item" where
  "raw_text t d =
     \<lparr>r_id = ''x'', r_title = t, r_description = d, r_hashtags = None,
      r_audioTrack = None, r_metrics = None, r_niche = None, r_relevanceScore = None,
      r_originalUrl = None, r_thumbnailUrl = None, r_duration = None, r_language = None,
      r_region = None\<rparr>"

lemma classified_examples:
  "detectNiche (raw_text (Some ''Healthy Cooking Recipe'')
                  (Some ''Learn to cook healthy meals in your kitchen''))
     = [''fitness'', ''food'', ''education'']"
  "detectNiche (raw_text (Some ''HOW TO TRAVEL'') (Some [])) = [''travel'', ''education'']"
  "detectNiche (raw_text (Some ''Untitled'') (Some ''My Kitchen'')) = [''food'']"
  "detectNiche (raw_text (Some ''Random Content'') (Some ''Some random stuff'')) = [''general'']"
  "detectNiche (raw_text None None) = [''general'']"
  by code_simp+

text \<open>
  Claim C9. For every input the niche classifier returns a non-empty list of tags; the result is
  exactly \<open>general\<close> if and only if no keyword of any niche's keyword table occurs as a substring
  of the lower-cased text made of the title, a space and the description (a missing one reads
  \<open>undefined\<close>); lower-casing turns the capitals A to Z into small letters and leaves every other
  character; and several niches can be returned at once, a keyword being found whatever its
  case and whether it stands in the title or in the description.
\<close>

theorem detectNiche_general_iff:
  "detectNiche data \<noteq> []
   \<and> (detectNiche data = [''general'']
        \<longleftrightarrow> \<not> (\<exists>(niche, keywords) \<in> set nicheKeywords. \<exists>keyword \<in> set keywords.
                   sublist keyword
                     (toLowerCase (template (r_title data) @ '' '' @ template (r_description data)))))
   \<and> (set (detectNiche data) = {''general''}
        \<longleftrightarrow> \<not> (\<exists>(niche, keywords) \<in> set nicheKeywords. \<exists>keyword \<in> set keywords.
                   sublist keyword
                     (toLowerCase (template (r_title data) @ '' '' @ template (r_description data)))))
   \<and> template None = ''undefined'' \<and> template (Some s) = s
   \<and> toLowerCase ''ABCDEFGHIJKLMNOPQRSTUVWXYZ'' = ''abcdefghijklmnopqrstuvwxyz''
   \<and> (set s \<inter> set ''ABCDEFGHIJKLMNOPQRSTUVWXYZ'' = {} \<longrightarrow> toLowerCase s = s)
   \<and> toLowerCase (s @ s') = toLowerCase s @ toLowerCase s'
   \<and> detectNiche (raw_text (Some ''Healthy Cooking Recipe'')
                     (Some ''Learn to cook healthy meals in your kitchen''))
       = [''fitness'', ''food'', ''education'']
   \<and> detectNiche (raw_text (Some ''HOW TO TRAVEL'') (Some [])) = [''travel'', ''education'']
   \<and> detectNiche (raw_text (Some ''Untitled'') (Some ''My Kitchen'')) = [''food'']
   \<and> detectNiche (raw_text None None) = [''general'']"
proof (intro conjI)
  let ?hit = "\<exists>(niche, keywords) \<in> set nicheKeywords. \<exists>keyword \<in> set keywords.
                sublist keyword (niche_text data)"
  let ?ns = "map fst (filter (\<lambda>(niche, keywords).
                              \<exists>keyword \<in> set keywords. sublist keyword (niche_text data))
                           nicheKeywords)"
  have ne: "?ns \<noteq> []" if ?hit
    using that by (auto simp: filter_empty_conv)
  have ng: "''general'' \<notin> set ?ns"
    using general_not_a_niche by auto
  show "detectNiche data \<noteq> []"
    using ne by (simp add: detectNiche_cases)
  have l: "detectNiche data = [''general''] \<longleftrightarrow> \<not> ?hit"
  proof (cases ?hit)
    case True
    with ng have "?ns \<noteq> [''general'']" by (metis list.set_intros(1))
    with True show ?thesis by (simp add: detectNiche_cases)
  next
    case False
    then show ?thesis by (simp add: detectNiche_cases)
  qed
  then show "detectNiche data = [''general'']
        \<longleftrightarrow> \<not> (\<exists>(niche, keywords) \<in> set nicheKeywords. \<exists>keyword \<in> set keywords.
                   sublist keyword
                     (toLowerCase (template (r_title data) @ '' '' @ template (r_description data))))"
    unfolding niche_text_def .
  have s: "set (detectNiche data) = {''general''} \<longleftrightarrow> \<not> ?hit"
  proof (cases ?hit)
    case True
    with ng have "set ?ns \<noteq> {''general''}" by blast
    with True show ?thesis by (simp add: detectNiche_cases)
  next
    case False
    then show ?thesis by (simp add: detectNiche_cases)
  qed
  then show "set (detectNiche data) = {''general''}
        \<longleftrightarrow> \<not> (\<exists>(niche, keywords) \<in> set nicheKeywords. \<exists>keyword \<in> set keywords.
                   sublist keyword
                     (toLowerCase (template (r_title data) @ '' '' @ template (r_description data))))"
    unfolding niche_text_def .
  show "template None = ''undefined''" and "template (Some s) = s"
    by (simp_all add: template_def)
  show "toLowerCase ''ABCDEFGHIJKLMNOPQRSTUVWXYZ'' = ''abcdefghijklmnopqrstuvwxyz''"
    by code_simp
  show "set s \<inter> set ''ABCDEFGHIJKLMNOPQRSTUVWXYZ'' = {} \<longrightarrow> toLowerCase s = s"
    using toLowerCase_other by blast
  show "toLowerCase (s @ s') = toLowerCase s @ toLowerCase s'"
    by (simp add: toLowerCase_def)
qed (rule classified_examples)+

theorem detectNiche_general_iff_witness:
  "detectNiche (raw_text (Some ''Random Content'') (Some ''Some random stuff'')) = [''general'']
   \<and> \<not> (\<exists>(niche, keywords) \<in> set nicheKeywords. \<exists>keyword \<in> set keywords.
            sublist keyword (toLowerCase (''Random Content'' @ '' '' @ ''Some random stuff'')))
   \<and> detectNiche (raw_text (Some ''HOW TO TRAVEL'') (Some [])) \<noteq> [''general'']
   \<and> (\<exists>(niche, keywords) \<in> set nicheKeywords. \<exists>keyword \<in> set keywords.
            sublist keyword (toLowerCase (''HOW TO TRAVEL'' @ '' '' @ [])))
   \<and> \<not> (\<exists>(niche, keywords) \<in> set nicheKeywords. \<exists>keyword \<in> set keywords.
            sublist keyword (''HOW TO TRAVEL'' @ '' '' @ []))
   \<and> detectNiche (raw_text (Some ''Untitled'') (Some ''My Kitchen'')) \<noteq> [''general'']
   \<and> (\<exists>(niche, keywords) \<in> set nicheKeywords. \<exists>keyword \<in> set keywords.
            sublist keyword (toLowerCase (''Untitled'' @ '' '' @ ''My Kitchen'')))
   \<and> \<not> (\<exists>(niche, keywords) \<in> set nicheKeywords. \<exists>keyword \<in> set keywords.
            sublist keyword (toLowerCase ''Untitled''))
   \<and> set ''random content'' \<inter> set ''ABCDEFGHIJKLMNOPQRSTUVWXYZ'' = {}
   \<and> toLowerCase ''random content'' = ''random content''"
proof -
  have t: "template (r_title (raw_text (Some a) (Some b))) = a"
    "template (r_description (raw_text (Some a) (Some b))) = b" for a b
    by (simp_all add: raw_text_def template_def)
  note random = detectNiche_general_iff
    [of "raw_text (Some ''Random Content'') (Some ''Some random stuff'')",
      THEN conjunct2, THEN conjunct1, unfolded t]
  note shouting = detectNiche_general_iff
    [of "raw_text (Some ''HOW TO TRAVEL'') (Some [])", THEN conjunct2, THEN conjunct1, unfolded t]
  note kitchen = detectNiche_general_iff
    [of "raw_text (Some ''Untitled'') (Some ''My Kitchen'')", THEN conjunct2, THEN conjunct1,
      unfolded t]
  note lower = detectNiche_general_iff
    [of _ _ "''random content''", THEN conjunct2, THEN conjunct2, THEN conjunct2, THEN conjunct2,
      THEN conjunct2, THEN conjunct2, THEN conjunct1]
  have r: "detectNiche (raw_text (Some ''Random Content'') (Some ''Some random stuff''))
             = [''general'']"
    by (rule classified_examples)
  have s: "detectNiche (raw_text (Some ''HOW TO TRAVEL'') (Some [])) \<noteq> [''general'']"
    and k: "detectNiche (raw_text (Some ''Untitled'') (Some ''My Kitchen'')) \<noteq> [''general'']"
    by (simp_all add: classified_examples)
  from r have r': "\<not> (\<exists>(niche, keywords) \<in> set nicheKeywords. \<exists>keyword \<in> set keywords.
            sublist keyword (toLowerCase (''Random Content'' @ '' '' @ ''Some random stuff'')))"
    unfolding random .
  from s have s': "\<exists>(niche, keywords) \<in> set nicheKeywords. \<exists>keyword \<in> set keywords.
            sublist keyword (toLowerCase (''HOW TO TRAVEL'' @ '' '' @ []))"
    unfolding shouting not_not .
  from k have k': "\<exists>(niche, keywords) \<in> set nicheKeywords. \<exists>keyword \<in> set keywords.
            sublist keyword (toLowerCase (''Untitled'' @ '' '' @ ''My Kitchen''))"
    unfolding kitchen not_not .
  have upper: "\<not> (\<exists>(niche, keywords) \<in> set nicheKeywords. \<exists>keyword \<in> set keywords.
            sublist keyword (''HOW TO TRAVEL'' @ '' '' @ []))"
    by code_simp
  have title: "\<not> (\<exists>(niche, keywords) \<in> set nicheKeywords. \<exists>keyword \<in> set keywords.
            sublist keyword (toLowerCase ''Untitled''))"
    by code_simp
  have d: "set ''random content'' \<inter> set ''ABCDEFGHIJKLMNOPQRSTUVWXYZ'' = {}"
    by code_simp
  from lower d have l: "toLowerCase ''random content'' = ''random content''"
    by (rule mp)
  from r r' s s' upper k k' title d l show ?thesis by (intro conjI)
qed

section \<open>The concrete scoring scenario\<close>

definition scenario_item :: raw_item where
  "scenario_item =
     \<lparr>r_id = ''item_1'', r_title = Some ''Title'', r_description = None, r_hashtags = None,
      r_audioTrack = None,
      r_metrics = Some \<lparr>rm_views = Some 1200000, rm_likes = Some 60000,
                        rm_comments = Some 3000, rm_shares = Some 2000,
                        rm_growth = Some 1500, rm_uses = None, rm_engagementRate = None\<rparr>,
      r_niche = None, r_relevanceScore = None, r_originalUrl = None, r_thumbnailUrl = None,
      r_duration = None, r_language = None, r_region = None\<rparr>"

text \<open>
  Claim C2 says that the raw item with views 1,200,000, likes 60,000, comments 3,000, shares
  2,000 and growth 1,500 is normalized to engagementRate 5.42 and relevanceScore 100. The code
  computes the engagement rate (65/12, about 5.42) but calls the scorer on the raw item, whose
  metrics carry no engagementRate, so the engagement boost is never added: the score is
  50 + 0 + 15 + 15 = 80.
\<close>

theorem scenario_score_is_80:
  "engagementRate (metrics (normalizeTrendData now pf scenario_item)) = 65 / 12
   \<and> relevanceScore (normalizeTrendData now pf scenario_item) = 80
   \<and> relevanceScore (normalizeTrendData now pf scenario_item) \<noteq> 100"
  by (simp add: normalizeTrendData_def scenario_item_def calculateEngagementRate_def or0_def
        score_sum engagementBoost_def growthBoost_def viewsBoost_def metric_def gt_def)

section \<open>Re-ingestion of a platform item\<close>

definition first_fetch :: raw_item where
  "first_fetch =
     \<lparr>r_id = ''ig_trend_1'', r_title = Some ''Morning Routine Aesthetic'',
      r_description = Some ''Start your day with intention and style'', r_hashtags = None,
      r_audioTrack = None,
      r_metrics = Some \<lparr>rm_views = Some 250000, rm_likes = Some 15000,
                        rm_comments = Some 800, rm_shares = None,
                        rm_growth = Some 1200, rm_uses = None, rm_engagementRate = None\<rparr>,
      r_niche = Some [''lifestyle'', ''beauty''], r_relevanceScore = None, r_originalUrl = None,
      r_thumbnailUrl = None, r_duration = None, r_language = None, r_region = None\<rparr>"

definition second_fetch :: raw_item where
  "second_fetch =
     first_fetch\<lparr>r_metrics := Some \<lparr>rm_views = Some 300000, rm_likes = Some 18000,
                        rm_comments = Some 900, rm_shares = None,
                        rm_growth = Some 1500, rm_uses = None, rm_engagementRate = None\<rparr>\<rparr>"

definition after_two_fetches :: "trend list" where
  "after_two_fetches =
     fst (ingest accept_all 2000 ''instagram'' second_fetch
            (fst (ingest accept_all 1000 ''instagram'' first_fetch [])))"

text \<open>
  Claim C1 says that two ingestions of the same platform item with different metrics leave
  exactly one stored record, carrying the second metrics. The key that \<open>storeTrends\<close> looks
  up is the \<open>trendId\<close> built by \<open>normalizeTrendData\<close>, and that ends in the time of the call:
  the same item fetched one second later gets a different key, the lookup finds nothing, and a
  second record is inserted beside the first, which keeps the old metrics.
\<close>

theorem reingestion_stores_two_records:
  "map trendId after_two_fetches = [''instagram_ig_trend_1_1000'', ''instagram_ig_trend_1_2000'']
   \<and> map (\<lambda>d. views (metrics d)) after_two_fetches = [250000, 300000]
   \<and> length after_two_fetches \<noteq> 1"
  by code_simp

section \<open>Hysteresis of the re-scoring job\<close>

text \<open>What the loop does to one document of the query result, and to the stored copies.\<close>

definition rescored :: "rounding \<Rightarrow> int \<Rightarrow> trend \<Rightarrow> trend" where
  "rescored rnd now t =
     (if 5 < \<bar>rnd (relevanceScore t - calculateTrendScore rnd now t)\<bar>
      then t\<lparr>relevanceScore := calculateTrendScore rnd now t\<rparr> else t)"

definition rescored_in :: "rounding \<Rightarrow> int \<Rightarrow> nat set \<Rightarrow> trend \<Rightarrow> trend" where
  "rescored_in rnd now I t = (if doc_id t \<in> I then rescored rnd now t else t)"

lemma doc_id_rescored [simp]: "doc_id (rescored rnd now t) = doc_id t"
  by (simp add: rescored_def)

lemma doc_id_rescored_in [simp]: "doc_id (rescored_in rnd now I t) = doc_id t"
  by (simp add: rescored_in_def)





definition old_record :: trend where
  "old_record =
     \<lparr>platform = ''tiktok'', trendId = ''tiktok_tt_trend_1_0'', title = ''Dance Challenge 2024'',
      description = ''New viral dance everyone is doing'', hashtags = [''dance'', ''viral''],
      audioTrack = empty_audio,
      metrics = \<lparr>views = 500000, uses = 0, growth = 0, engagementRate = 15 / 2\<rparr>,
      niche = [''entertainment''], relevanceScore = 80,
      metadata = \<lparr>originalUrl = [], thumbnailUrl = [], duration = 0, language = ''en'',
                  region = ''US''\<rparr>,
      doc_id = 1, isActive = True, expiresAt = 1000000000, createdAt = 0\<rparr>"











text \<open>The comparison with 5 is made on doubles. A record created sixteen hours before the
  run, without engagement or growth and stored with score 33: in exact arithmetic its score is
  28 and the difference 5, so that it would be left alone; the doubles give
  27.999999999999996, that is 28 - 1 / 2 ^ 48, the difference exceeds 5 and the job rewrites the record.\<close>

definition sixteen_hours_old :: trend where
  "sixteen_hours_old =
     old_record\<lparr>doc_id := 7, relevanceScore := 33, createdAt := 806400000,
       metrics := \<lparr>views = 500000, uses = 0, growth = 0, engagementRate = 0\<rparr>\<rparr>"

lemma sixteen_hours_old_score:
  "calculateTrendScore (\<lambda>x. x) 864000000 sixteen_hours_old = 28"
  "calculateTrendScore binary64 864000000 sixteen_hours_old
     = 7881299347898367 / 281474976710656"
  "binary64 (1407374883553281 / 281474976710656) = 1407374883553281 / 281474976710656"
  by code_simp+

lemma rescoring_in_double_arithmetic:
  "updateTrendScores trend_schema (\<lambda>x. x) 864000000 [sixteen_hours_old]
     = ([sixteen_hours_old], Inr 0)
   \<and> updateTrendScores trend_schema binary64 864000000 [sixteen_hours_old]
     = ([sixteen_hours_old\<lparr>relevanceScore := 7881299347898367 / 281474976710656\<rparr>], Inr 1)"
proof -
  have a: "isActive sixteen_hours_old" "864000000 < expiresAt sixteen_hours_old"
    "relevanceScore sixteen_hours_old = 33" "doc_id sixteen_hours_old = 7"
    by (simp_all add: sixteen_hours_old_def old_record_def)
  have v: "trend_schema (sixteen_hours_old\<lparr>relevanceScore := 7881299347898367 / 281474976710656\<rparr>) = None"
    by (simp add: trend_schema_def sixteen_hours_old_def old_record_def)
  have "updateTrendScores_loop trend_schema (\<lambda>x. x) 864000000
          [sixteen_hours_old] [sixteen_hours_old] 0 = ([sixteen_hours_old], Inr 0)"
    by (simp add: Let_def sixteen_hours_old_score a)
  moreover have "updateTrendScores_loop trend_schema binary64 864000000
          [sixteen_hours_old] [sixteen_hours_old] 0
        = ([sixteen_hours_old\<lparr>relevanceScore := 7881299347898367 / 281474976710656\<rparr>], Inr 1)"
    by (simp add: Let_def sixteen_hours_old_score a save_def v)
  ultimately show ?thesis
    by (simp add: updateTrendScores_def a del: updateTrendScores_loop.simps)
qed

section \<open>Growth buckets\<close>

lemma fold_latest:
  "fold (\<lambda>d best. if a_timestamp best < a_timestamp d then d else best) cs c \<in> set (c # cs)
   \<and> (\<forall>q \<in> set (c # cs).
         a_timestamp q
           \<le> a_timestamp (fold (\<lambda>d best. if a_timestamp best < a_timestamp d then d else best) cs c))"
proof (induction cs arbitrary: c)
  case Nil
  show ?case by simp
next
  case (Cons x cs)
  show ?case
    using Cons.IH [of x] Cons.IH [of c] by (cases "a_timestamp c < a_timestamp x") auto
qed

lemma findPrevious_latest:
  assumes "p \<in> set store" and "a_userId p = a_userId this" and "a_platform p = a_platform this"
    and "a_mediaId p = a_mediaId this" and "a_isActive p" and "a_timestamp p < a_timestamp this"
  shows "\<exists>prev. findPrevious store this = Some prev \<and> prev \<in> set store
           \<and> a_userId prev = a_userId this \<and> a_platform prev = a_platform this
           \<and> a_mediaId prev = a_mediaId this \<and> a_isActive prev
           \<and> a_timestamp prev < a_timestamp this
           \<and> (\<forall>q \<in> set store.
                 a_userId q = a_userId this \<and> a_platform q = a_platform this
                 \<and> a_mediaId q = a_mediaId this \<and> a_isActive q
                 \<and> a_timestamp q < a_timestamp this
                 \<longrightarrow> a_timestamp q \<le> a_timestamp prev)"
proof -
  let ?Q = "\<lambda>d. a_userId d = a_userId this \<and> a_platform d = a_platform this
                \<and> a_mediaId d = a_mediaId this
                \<and> a_timestamp d < a_timestamp this \<and> a_isActive d"
  from assms have "p \<in> set (filter ?Q store)" by simp
  then obtain c cs where f: "filter ?Q store = c # cs"
    by (cases "filter ?Q store") auto
  let ?prev = "fold (\<lambda>d best. if a_timestamp best < a_timestamp d then d else best) cs c"
  have "?prev \<in> set (filter ?Q store)"
    and "\<forall>q \<in> set (filter ?Q store). a_timestamp q \<le> a_timestamp ?prev"
    using fold_latest [of cs c] unfolding f by blast+
  moreover have "findPrevious store this = Some ?prev"
    by (simp add: findPrevious_def f)
  ultimately show ?thesis by auto
qed

lemma days_as_milliseconds:
  "(of_int t :: rat) / (1000 * 60 * 60 * 24) \<le> 1 \<longleftrightarrow> t \<le> 86400000"
  "(of_int t :: rat) / (1000 * 60 * 60 * 24) \<le> 7 \<longleftrightarrow> t \<le> 604800000"
  "(of_int t :: rat) / (1000 * 60 * 60 * 24) \<le> 30 \<longleftrightarrow> t \<le> 2592000000"
proof -
  have "(of_int t :: rat) \<le> of_int n \<longleftrightarrow> t \<le> n" for n
    by simp
  from this [of 86400000] this [of 604800000] this [of 2592000000]
  show "(of_int t :: rat) / (1000 * 60 * 60 * 24) \<le> 1 \<longleftrightarrow> t \<le> 86400000"
    and "(of_int t :: rat) / (1000 * 60 * 60 * 24) \<le> 7 \<longleftrightarrow> t \<le> 604800000"
    and "(of_int t :: rat) / (1000 * 60 * 60 * 24) \<le> 30 \<longleftrightarrow> t \<le> 2592000000"
    by (simp_all add: field_simps)
qed

definition prior_record :: analytics where
  "prior_record =
     \<lparr>a_id = 1, a_userId = ''u1'', a_platform = ''instagram'', a_accountId = ''acc1'',
      a_mediaId = ''m1'', a_mediaType = ''reel'',
      a_metrics = \<lparr>a_views = 100, a_likes = 0, a_shares = 0, a_comments = 0, a_saves = 0,
                   a_engagementRate = 0, a_reachRate = 0, a_impressions = 0, a_reach = 0\<rparr>,
      a_performance = \<lparr>dailyGrowth = 0, weeklyGrowth = 0, monthlyGrowth = 0\<rparr>,
      a_timestamp = 0, a_syncedAt = 0, a_isActive = True, a_createdAt = 0\<rparr>"

definition later_record :: "int \<Rightarrow> analytics" where
  "later_record t =
     prior_record\<lparr>a_id := 2, a_timestamp := t, a_createdAt := t,
       a_metrics := (a_metrics prior_record)\<lparr>a_views := 150\<rparr>,
       a_performance := \<lparr>dailyGrowth = 1, weeklyGrowth = 2, monthlyGrowth = 3\<rparr>\<rparr>"

definition accept_analytics :: analytics_database where
  "accept_analytics d = None"

text \<open>
  Claim C4 as stated speaks of any prior record of the same media. The query only considers
  active records: when the only earlier record is inactive, no bucket is assigned, although the
  two records are 12 hours apart.
\<close>

theorem inactive_prior_sets_no_bucket:
  "a_userId (prior_record\<lparr>a_isActive := False\<rparr>) = a_userId (later_record 43200000)
   \<and> a_platform (prior_record\<lparr>a_isActive := False\<rparr>) = a_platform (later_record 43200000)
   \<and> a_mediaId (prior_record\<lparr>a_isActive := False\<rparr>) = a_mediaId (later_record 43200000)
   \<and> a_timestamp (later_record 43200000) - a_timestamp (prior_record\<lparr>a_isActive := False\<rparr>)
        \<le> 86400000
   \<and> a_timestamp (prior_record\<lparr>a_isActive := False\<rparr>) < a_timestamp (later_record 43200000)
   \<and> fst (calculateGrowthRates accept_analytics [prior_record\<lparr>a_isActive := False\<rparr>]
            (later_record 43200000)) = later_record 43200000
   \<and> dailyGrowth (a_performance
        (fst (calculateGrowthRates accept_analytics [prior_record\<lparr>a_isActive := False\<rparr>]
               (later_record 43200000))))
       \<noteq> a_views (a_metrics (later_record 43200000))
           - a_views (a_metrics (prior_record\<lparr>a_isActive := False\<rparr>))"
  by (simp add: calculateGrowthRates_def findPrevious_def later_record_def prior_record_def
        Let_def)

text \<open>
  Claim C4, amended. For every analytics record with a prior active record of the same
  (userId, platform, mediaId) at an earlier timestamp, the growth computation takes the most
  recent such record and assigns the views delta to exactly one bucket by the elapsed time:
  dailyGrowth if at most 1 day, else weeklyGrowth if at most 7 days, else monthlyGrowth if at
  most 30 days, and no bucket if more. Nothing else of the record changes.
\<close>

theorem calculateGrowthRates_bucket:
  assumes "p \<in> set store" and "a_userId p = a_userId this" and "a_platform p = a_platform this"
    and "a_mediaId p = a_mediaId this" and "a_isActive p" and "a_timestamp p < a_timestamp this"
  shows "\<exists>prev \<in> set store.
           a_userId prev = a_userId this \<and> a_platform prev = a_platform this
           \<and> a_mediaId prev = a_mediaId this \<and> a_isActive prev
           \<and> a_timestamp prev < a_timestamp this
           \<and> (\<forall>q \<in> set store.
                 a_userId q = a_userId this \<and> a_platform q = a_platform this
                 \<and> a_mediaId q = a_mediaId this \<and> a_isActive q
                 \<and> a_timestamp q < a_timestamp this
                 \<longrightarrow> a_timestamp q \<le> a_timestamp prev)
           \<and> fst (calculateGrowthRates db store this)
               = (let elapsed = a_timestamp this - a_timestamp prev;
                      delta = a_views (a_metrics this) - a_views (a_metrics prev)
                  in if elapsed \<le> 86400000
                     then this\<lparr>a_performance := (a_performance this)\<lparr>dailyGrowth := delta\<rparr>\<rparr>
                     else if elapsed \<le> 7 * 86400000
                     then this\<lparr>a_performance := (a_performance this)\<lparr>weeklyGrowth := delta\<rparr>\<rparr>
                     else if elapsed \<le> 30 * 86400000
                     then this\<lparr>a_performance := (a_performance this)\<lparr>monthlyGrowth := delta\<rparr>\<rparr>
                     else this)"
proof -
  from findPrevious_latest [OF assms] obtain prev where
    f: "findPrevious store this = Some prev" and m: "prev \<in> set store"
    and k: "a_userId prev = a_userId this" "a_platform prev = a_platform this"
      "a_mediaId prev = a_mediaId this" "a_isActive prev" "a_timestamp prev < a_timestamp this"
    and l: "\<forall>q \<in> set store.
                 a_userId q = a_userId this \<and> a_platform q = a_platform this
                 \<and> a_mediaId q = a_mediaId this \<and> a_isActive q
                 \<and> a_timestamp q < a_timestamp this
                 \<longrightarrow> a_timestamp q \<le> a_timestamp prev"
    by blast
  have "fst (calculateGrowthRates db store this)
               = (let elapsed = a_timestamp this - a_timestamp prev;
                      delta = a_views (a_metrics this) - a_views (a_metrics prev)
                  in if elapsed \<le> 86400000
                     then this\<lparr>a_performance := (a_performance this)\<lparr>dailyGrowth := delta\<rparr>\<rparr>
                     else if elapsed \<le> 7 * 86400000
                     then this\<lparr>a_performance := (a_performance this)\<lparr>weeklyGrowth := delta\<rparr>\<rparr>
                     else if elapsed \<le> 30 * 86400000
                     then this\<lparr>a_performance := (a_performance this)\<lparr>monthlyGrowth := delta\<rparr>\<rparr>
                     else this)"
    by (simp add: calculateGrowthRates_def f Let_def days_as_milliseconds)
  with m k l show ?thesis by blast
qed

theorem calculateGrowthRates_bucket_witness:
  "fst (calculateGrowthRates accept_analytics [prior_record] (later_record 43200000))
     = (later_record 43200000)
         \<lparr>a_performance := \<lparr>dailyGrowth = 50, weeklyGrowth = 2, monthlyGrowth = 3\<rparr>\<rparr>
   \<and> fst (calculateGrowthRates accept_analytics [prior_record] (later_record 345600000))
     = (later_record 345600000)
         \<lparr>a_performance := \<lparr>dailyGrowth = 1, weeklyGrowth = 50, monthlyGrowth = 3\<rparr>\<rparr>
   \<and> fst (calculateGrowthRates accept_analytics [prior_record] (later_record 3888000000))
     = later_record 3888000000"
proof -
  have w: "fst (calculateGrowthRates accept_analytics [prior_record] (later_record t))
             = (if t \<le> 86400000
                then (later_record t)
                  \<lparr>a_performance := \<lparr>dailyGrowth = 50, weeklyGrowth = 2, monthlyGrowth = 3\<rparr>\<rparr>
                else if t \<le> 604800000
                then (later_record t)
                  \<lparr>a_performance := \<lparr>dailyGrowth = 1, weeklyGrowth = 50, monthlyGrowth = 3\<rparr>\<rparr>
                else if t \<le> 2592000000
                then (later_record t)
                  \<lparr>a_performance := \<lparr>dailyGrowth = 1, weeklyGrowth = 2, monthlyGrowth = 50\<rparr>\<rparr>
                else later_record t)"
    if "0 < t" for t
  proof -
    have "prior_record \<in> set [prior_record]"
      and "a_userId prior_record = a_userId (later_record t)"
      and "a_platform prior_record = a_platform (later_record t)"
      and "a_mediaId prior_record = a_mediaId (later_record t)"
      and "a_isActive prior_record"
      and "a_timestamp prior_record < a_timestamp (later_record t)"
      using that by (simp_all add: prior_record_def later_record_def)
    from calculateGrowthRates_bucket [OF this, of accept_analytics]
    obtain prev where p: "prev \<in> set [prior_record]"
      and r: "fst (calculateGrowthRates accept_analytics [prior_record] (later_record t))
               = (let elapsed = a_timestamp (later_record t) - a_timestamp prev;
                      delta = a_views (a_metrics (later_record t)) - a_views (a_metrics prev)
                  in if elapsed \<le> 86400000
                     then (later_record t)\<lparr>a_performance :=
                            (a_performance (later_record t))\<lparr>dailyGrowth := delta\<rparr>\<rparr>
                     else if elapsed \<le> 7 * 86400000
                     then (later_record t)\<lparr>a_performance :=
                            (a_performance (later_record t))\<lparr>weeklyGrowth := delta\<rparr>\<rparr>
                     else if elapsed \<le> 30 * 86400000
                     then (later_record t)\<lparr>a_performance :=
                            (a_performance (later_record t))\<lparr>monthlyGrowth := delta\<rparr>\<rparr>
                     else later_record t)"
      by blast
    from p have prev: "prev = prior_record" by simp
    have e: "a_timestamp (later_record t) - a_timestamp prior_record = t"
      "a_views (a_metrics (later_record t)) - a_views (a_metrics prior_record) = 50"
      "a_performance (later_record t)
         = \<lparr>dailyGrowth = 1, weeklyGrowth = 2, monthlyGrowth = 3\<rparr>"
      by (simp_all add: prior_record_def later_record_def)
    show ?thesis
      unfolding r prev Let_def e by simp
  qed
  show ?thesis
    using w [of 43200000] w [of 345600000] w [of 3888000000] by simp
qed

section \<open>Weekly cleanup\<close>

lemma fold_deleteMany:
  "fold (\<lambda>(k, docs) s. deleteMany_ids (drop 1 docs) s) gs s
     = filter (\<lambda>d. \<forall>(k, docs) \<in> set gs. a_id d \<notin> set (drop 1 docs)) s"
proof (induction gs arbitrary: s)
  case Nil
  show ?case by simp
next
  case (Cons g gs)
  obtain k docs where g: "g = (k, docs)" by (cases g)
  have "fold (\<lambda>(k, docs) s. deleteMany_ids (drop 1 docs) s) (g # gs) s
          = fold (\<lambda>(k, docs) s. deleteMany_ids (drop 1 docs) s) gs
              (deleteMany_ids (drop 1 docs) s)"
    by (simp add: g)
  also have "\<dots> = filter (\<lambda>d. \<forall>(k, docs) \<in> set gs. a_id d \<notin> set (drop 1 docs))
                      (deleteMany_ids (drop 1 docs) s)"
    by (rule Cons.IH)
  also have "\<dots> = filter (\<lambda>d. \<forall>(k, docs) \<in> set (g # gs). a_id d \<notin> set (drop 1 docs)) s"
    by (auto simp: g deleteMany_ids_def intro: filter_cong)
  finally show ?case .
qed

lemma filter_first_of_distinct:
  "distinct (map f xs) \<Longrightarrow> filter (\<lambda>x. f x \<notin> set (drop 1 (map f xs))) xs = take 1 xs"
proof (cases xs)
  case Nil
  then show ?thesis by simp
next
  case (Cons x rest)
  assume "distinct (map f xs)"
  with Cons have "f x \<notin> f ` set rest" by simp
  moreover have "filter (\<lambda>y. f y \<notin> f ` set rest) rest = []"
    by (simp add: filter_empty_conv)
  ultimately show ?thesis
    using Cons by (simp add: drop_Suc)
qed

lemma cleanup_keeps_first_of_group:
  assumes "distinct (map a_id store)"
  shows "filter (\<lambda>d. media_key d = k) (performWeeklyCleanup days_ago now store)
           = take 1 (filter (\<lambda>d. media_key d = k)
                       (filter (\<lambda>d. \<not> (a_timestamp d < days_ago now 90
                                        \<and> \<not> a_isActive d)) store))"
proof -
  define s1 where
    "s1 = filter (\<lambda>d. \<not> (a_timestamp d < days_ago now 90 \<and> \<not> a_isActive d)) store"
  define G where "G = filter (\<lambda>d. media_key d = k) s1"
  define dups where "dups = filter (\<lambda>(k, docs). 1 < length docs) (group_by_media s1)"
  define S :: "analytics \<Rightarrow> bool" where
    "S = (\<lambda>d. \<forall>(k, docs) \<in> set dups. a_id d \<notin> set (drop 1 docs))"
  have d1: "distinct (map a_id s1)"
    using assms by (simp add: s1_def distinct_map_filter)
  then have inj: "inj_on a_id (set s1)"
    by (simp add: distinct_map)
  from d1 have dG: "distinct (map a_id G)"
    by (simp add: G_def distinct_map_filter)
  have dups_iff: "(k', docs) \<in> set dups \<longleftrightarrow>
                    docs = map a_id (filter (\<lambda>d. media_key d = k') s1) \<and> 1 < length docs
                    \<and> k' \<in> media_key ` set s1" for k' docs
    by (auto simp: dups_def group_by_media_def)
  have S_iff: "S d \<longleftrightarrow> a_id d \<notin> set (drop 1 (map a_id G))" if "d \<in> set G" for d
  proof
    assume "S d"
    show "a_id d \<notin> set (drop 1 (map a_id G))"
    proof
      assume in_tail: "a_id d \<in> set (drop 1 (map a_id G))"
      then have "drop 1 (map a_id G) \<noteq> []" by auto
      then have "1 < length (map a_id G)" by (cases G) auto
      moreover from that have "k \<in> media_key ` set s1" by (auto simp: G_def)
      ultimately have "(k, map a_id G) \<in> set dups"
        by (simp add: dups_iff G_def)
      with \<open>S d\<close> have "a_id d \<notin> set (drop 1 (map a_id G))"
        by (auto simp: S_def)
      with in_tail show False by simp
    qed
  next
    assume not_tail: "a_id d \<notin> set (drop 1 (map a_id G))"
    have "a_id d \<notin> set (drop 1 docs)" if g: "(k', docs) \<in> set dups" for k' docs
    proof (cases "k' = k")
      case True
      with g not_tail show ?thesis by (simp add: dups_iff G_def)
    next
      case False
      show ?thesis
      proof
        assume "a_id d \<in> set (drop 1 docs)"
        then have "a_id d \<in> set docs" by (rule in_set_dropD)
        with g obtain d' where "d' \<in> set s1" and "media_key d' = k'" and "a_id d' = a_id d"
          by (auto simp: dups_iff)
        moreover from \<open>d \<in> set G\<close> have "d \<in> set s1" and "media_key d = k"
          by (simp_all add: G_def)
        ultimately show False
          using inj False by (auto dest: inj_onD)
      qed
    qed
    then show "S d" by (auto simp: S_def)
  qed
  have "performWeeklyCleanup days_ago now store = filter S s1"
    unfolding performWeeklyCleanup_def Let_def fold_deleteMany s1_def dups_def S_def ..
  then have "filter (\<lambda>d. media_key d = k) (performWeeklyCleanup days_ago now store) = filter S G"
    by (auto simp: G_def intro: filter_cong)
  also have "\<dots> = filter (\<lambda>d. a_id d \<notin> set (drop 1 (map a_id G))) G"
    using S_iff by (auto intro: filter_cong)
  also have "\<dots> = take 1 G"
    using dG by (rule filter_first_of_distinct)
  finally show ?thesis
    by (simp add: G_def s1_def)
qed

definition older_record :: analytics where
  "older_record = prior_record\<lparr>a_id := 1, a_createdAt := 1000, a_timestamp := 1000\<rparr>"

definition newer_record :: analytics where
  "newer_record = prior_record\<lparr>a_id := 2, a_createdAt := 2000, a_timestamp := 2000,
                     a_metrics := (a_metrics prior_record)\<lparr>a_views := 150\<rparr>\<rparr>"

text \<open>
  Claim C5 does not hold of the code. Two active records of the same user, platform and media,
  inserted one after the other and created at 1000 and at 2000: whatever the calendar and the
  time of the run, the weekly cleanup leaves the group with one record, the one created first.
  The job removes \<open>docs.slice(1)\<close> of the identifiers that the aggregation pushed in scan order,
  so it keeps the first record of the group in scan order, where the claim, and the comment
  \<open>keep the latest\<close> of the job itself, want the most recently created one.
\<close>

theorem cleanup_keeps_earliest_record:
  "performWeeklyCleanup days_ago now [older_record, newer_record] = [older_record]
   \<and> media_key older_record = media_key newer_record
   \<and> a_isActive older_record \<and> a_isActive newer_record
   \<and> a_id older_record \<noteq> a_id newer_record
   \<and> a_createdAt older_record < a_createdAt newer_record
   \<and> a_timestamp older_record < a_timestamp newer_record"
  by (simp add: performWeeklyCleanup_def group_by_media_def media_key_def deleteMany_ids_def
        older_record_def newer_record_def prior_record_def Let_def)

section \<open>Failure isolation of the trend refresh\<close>

text \<open>The normalized part of a stored document, and a normalized object as the setters of the
  schema store it.\<close>

definition normalized :: "trend \<Rightarrow> trend_data" where
  "normalized d =
     \<lparr>platform = platform d, trendId = trendId d, title = title d,
      description = description d, hashtags = hashtags d, audioTrack = audioTrack d,
      metrics = metrics d, niche = niche d, relevanceScore = relevanceScore d,
      metadata = metadata d\<rparr>"

definition cast :: "trend_data \<Rightarrow> trend_data" where
  "cast trendData =
     trendData\<lparr>hashtags := map trim (hashtags trendData), niche := map trim (niche trendData)\<rparr>"

text \<open>
  What one refresh has to store, read off the sources alone: the items of every platform whose
  source answered, normalized, Instagram first, then TikTok, then YouTube; a platform whose
  source failed contributes nothing. With an API key the YouTube items are those of the request
  that match the niche.
\<close>

definition answered :: "error + raw_item list \<Rightarrow> raw_item list" where
  "answered outcome = (case outcome of Inl e \<Rightarrow> [] | Inr items \<Rightarrow> items)"

definition delivered :: "sources \<Rightarrow> int \<Rightarrow> string option \<Rightarrow> trend_data list" where
  "delivered src now nicheFilter =
     map (normalizeTrendData now ''instagram'') (answered (instagram_source src nicheFilter))
     @ map (normalizeTrendData now ''tiktok'') (answered (tiktok_source src nicheFilter))
     @ (if youtube_api_key src
        then filter (\<lambda>trend. matchesNiche trend nicheFilter)
               (map (normalizeTrendData now ''youtube'') (answered (youtube_api src)))
        else map (normalizeTrendData now ''youtube'') (answered (youtube_mock src nicheFilter)))"

text \<open>The loop invariant of \<open>storeTrends\<close>, relative to the store the run started from and
  the items saved so far: identifiers stay distinct, every item saved has a document under its
  key that carries a saved item, and the documents under other keys are still there.\<close>

definition upserted :: "trend list \<Rightarrow> trend_data list \<Rightarrow> trend list \<Rightarrow> bool" where
  "upserted store saved cur \<longleftrightarrow>
     distinct (map doc_id cur)
     \<and> (\<forall>td \<in> set saved. \<exists>d \<in> set cur. trendId d = trendId td \<and> normalized d \<in> cast ` set saved)
     \<and> (\<forall>d \<in> set store. trendId d \<notin> trendId ` set saved \<longrightarrow> d \<in> set cur)"

lemma fold_max_upper: "a \<le> fold max xs a \<and> (\<forall>x \<in> set xs. x \<le> fold max xs (a::nat))"
proof (induction xs arbitrary: a)
  case Nil
  show ?case by simp
next
  case (Cons y ys)
  from Cons.IH [of "max y a"] show ?case by auto
qed

lemma fresh_id_is_fresh: "fresh_id store \<notin> set (map doc_id store)"
proof
  assume "fresh_id store \<in> set (map doc_id store)"
  with fold_max_upper [of 0 "map doc_id store"]
  have "fresh_id store \<le> fold max (map doc_id store) 0" by blast
  then show False by (simp add: fresh_id_def)
qed

lemma normalized_assign [simp]: "normalized (assign existingTrend trendData) = cast trendData"
  by (simp add: normalized_def assign_def cast_def)

lemma normalized_new_Trend [simp]: "normalized (new_Trend now i trendData) = cast trendData"
  by (simp add: normalized_def new_Trend_def cast_def)

lemma trendId_normalized [simp]: "trendId (normalized d) = trendId d"
  by (simp add: normalized_def)

lemma trendId_cast [simp]: "trendId (cast trendData) = trendId trendData"
  by (simp add: cast_def)

lemma doc_id_assign [simp]: "doc_id (assign existingTrend trendData) = doc_id existingTrend"
  by (simp add: assign_def)

lemma doc_id_new_Trend [simp]: "doc_id (new_Trend now i trendData) = i"
  by (simp add: new_Trend_def)

lemma allTrends_delivered:
  "fulfilled (fetchInstagramTrends src now nicheFilter)
     @ fulfilled (fetchTikTokTrends src now nicheFilter)
     @ fulfilled (fetchYouTubeTrends src now nicheFilter)
   = delivered src now nicheFilter"
  by (simp add: delivered_def answered_def fulfilled_def fetchInstagramTrends_def
        fetchTikTokTrends_def fetchYouTubeTrends_def split: sum.split)

lemma fetchAndStoreTrends_delivered:
  "fetchAndStoreTrends db src now nicheFilter store
     = storeTrends db now (delivered src now nicheFilter) store"
  unfolding fetchAndStoreTrends_def Let_def allTrends_delivered ..

text \<open>One accepted upsert.\<close>

lemma upsert_step:
  assumes db: "db doc = None" and dist: "distinct (map doc_id store)"
    and doc: "doc = (case findOne_trendId (trendId trendData) store of
                       Some existingTrend \<Rightarrow> assign existingTrend trendData
                     | None \<Rightarrow> new_Trend now (fresh_id store) trendData)"
  shows "\<exists>store'. save db doc store = Inr store' \<and> distinct (map doc_id store')
           \<and> doc \<in> set store'
           \<and> (\<forall>x \<in> set store. trendId x \<noteq> trendId trendData \<longrightarrow> x \<in> set store')
           \<and> trendId doc = trendId trendData \<and> normalized doc = cast trendData"
proof (cases "findOne_trendId (trendId trendData) store")
  case None
  then have d: "doc = new_Trend now (fresh_id store) trendData"
    by (simp add: doc)
  then have fresh: "doc_id doc \<notin> set (map doc_id store)"
    using fresh_id_is_fresh [of store] by simp
  then have "save db doc store = Inr (store @ [doc])"
    using db by (simp add: save_def)
  moreover have "distinct (map doc_id (store @ [doc]))"
    using dist fresh by simp
  moreover have "doc \<in> set (store @ [doc])"
    by simp
  moreover have "\<forall>x \<in> set store. trendId x \<noteq> trendId trendData \<longrightarrow> x \<in> set (store @ [doc])"
    by simp
  moreover have "trendId doc = trendId trendData"
    using d by (simp add: new_Trend_def)
  moreover have "normalized doc = cast trendData"
    by (simp add: d)
  ultimately show ?thesis by (intro exI conjI)
next
  case (Some existingTrend)
  then have e: "existingTrend \<in> set store" and t: "trendId existingTrend = trendId trendData"
    by (auto simp: findOne_trendId_def find_Some_iff)
  from Some have d: "doc = assign existingTrend trendData"
    by (simp add: doc)
  let ?store' = "map (\<lambda>x. if doc_id x = doc_id doc then doc else x) store"
  from dist have inj: "inj_on doc_id (set store)"
    by (simp add: distinct_map)
  have same_id: "doc_id existingTrend = doc_id doc"
    using d by simp
  have present: "doc_id doc \<in> set (map doc_id store)"
    using e d by simp
  then have s: "save db doc store = Inr ?store'"
    using db by (simp add: save_def)
  have ids: "map doc_id ?store' = map doc_id store"
    by (induction store) auto
  have dist': "distinct (map doc_id ?store')"
    unfolding ids by (rule dist)
  have "(\<lambda>x. if doc_id x = doc_id doc then doc else x) existingTrend \<in> set ?store'"
    using e by (simp only: set_map) (rule imageI)
  then have m: "doc \<in> set ?store'"
    by (simp only: same_id refl if_True)
  have keep: "\<forall>x \<in> set store. trendId x \<noteq> trendId trendData \<longrightarrow> x \<in> set ?store'"
  proof (intro ballI impI)
    fix x
    assume x: "x \<in> set store" and ne: "trendId x \<noteq> trendId trendData"
    have "doc_id x \<noteq> doc_id doc"
    proof
      assume "doc_id x = doc_id doc"
      with same_id have "doc_id x = doc_id existingTrend" by simp
      with inj x e have "x = existingTrend" by (auto dest: inj_onD)
      with t ne show False by simp
    qed
    then have "(\<lambda>x. if doc_id x = doc_id doc then doc else x) x = x"
      by simp
    moreover have "(\<lambda>x. if doc_id x = doc_id doc then doc else x) x \<in> set ?store'"
      using x by (simp only: set_map) (rule imageI)
    ultimately show "x \<in> set ?store'"
      by (simp only:)
  qed
  have td: "trendId doc = trendId trendData"
    using d by (simp add: assign_def)
  have "normalized doc = cast trendData"
    by (simp add: d)
  with s dist' m keep td show ?thesis by (intro exI conjI)
qed

lemma upserted_start: "distinct (map doc_id store) \<Longrightarrow> upserted store [] store"
  by (simp add: upserted_def)

lemma upserted_step:
  assumes inv: "upserted store saved cur"
    and d: "distinct (map doc_id cur')" and m: "doc \<in> set cur'"
    and keep: "\<forall>x \<in> set cur. trendId x \<noteq> trendId td \<longrightarrow> x \<in> set cur'"
    and t: "trendId doc = trendId td" and n: "normalized doc = cast td"
  shows "upserted store (saved @ [td]) cur'"
  unfolding upserted_def
proof (intro conjI ballI impI)
  show "distinct (map doc_id cur')" by (rule d)
next
  fix item
  assume item: "item \<in> set (saved @ [td])"
  have nd: "normalized doc \<in> cast ` set (saved @ [td])"
    by (simp add: n)
  show "\<exists>d \<in> set cur'. trendId d = trendId item \<and> normalized d \<in> cast ` set (saved @ [td])"
  proof (cases "trendId item = trendId td")
    case True
    with t have "trendId doc = trendId item" by simp
    with m nd show ?thesis by (intro bexI [of _ doc] conjI)
  next
    case False
    with item have "item \<in> set saved" by auto
    with inv obtain x where x: "x \<in> set cur" and tx: "trendId x = trendId item"
      and nx: "normalized x \<in> cast ` set saved"
      unfolding upserted_def by blast
    from tx False have "trendId x \<noteq> trendId td" by simp
    with keep x have "x \<in> set cur'" by simp
    moreover from nx have "normalized x \<in> cast ` set (saved @ [td])" by auto
    ultimately show ?thesis using tx by (intro bexI [of _ x] conjI)
  qed
next
  fix x
  assume x: "x \<in> set store" and nk: "trendId x \<notin> trendId ` set (saved @ [td])"
  then have "trendId x \<notin> trendId ` set saved" and ne: "trendId x \<noteq> trendId td"
    by auto
  with inv x have "x \<in> set cur"
    unfolding upserted_def by simp
  with keep ne show "x \<in> set cur'" by simp
qed

lemma upserted_keys:
  assumes "upserted store saved cur"
  shows "trendId ` set store \<subseteq> trendId ` set cur"
proof
  fix k
  assume "k \<in> trendId ` set store"
  then obtain x where x: "x \<in> set store" and k: "k = trendId x" by auto
  show "k \<in> trendId ` set cur"
  proof (cases "trendId x \<in> trendId ` set saved")
    case True
    then obtain td where "td \<in> set saved" and "trendId x = trendId td" by auto
    with assms obtain d where "d \<in> set cur" and "trendId d = trendId td"
      unfolding upserted_def by blast
    with \<open>trendId x = trendId td\<close> k show ?thesis by (metis imageI)
  next
    case False
    with assms x have "x \<in> set cur"
      unfolding upserted_def by simp
    with k show ?thesis by simp
  qed
qed

text \<open>The loop of \<open>storeTrends\<close>, whatever the database does: it saves a prefix of the items, all
  of them when it returns normally, and it returns normally when the database accepts every
  document that carries one of the items.\<close>

lemma storeTrends_loop_upserted:
  "upserted store saved cur \<Longrightarrow>
     \<exists>more. prefix more trends
       \<and> upserted store (saved @ more) (fst (storeTrends_loop db now trends cur acc))
       \<and> (\<forall>docs. snd (storeTrends_loop db now trends cur acc) = Inr docs \<longrightarrow>
             more = trends \<and> (\<exists>ds. docs = acc @ ds \<and> map normalized ds = map cast trends))
       \<and> ((\<forall>d. normalized d \<in> cast ` set trends \<longrightarrow> db d = None) \<longrightarrow>
             (\<exists>docs. snd (storeTrends_loop db now trends cur acc) = Inr docs))"
proof (induction trends arbitrary: saved cur acc)
  case Nil
  then show ?case by simp
next
  case (Cons trendData rest)
  define doc where
    "doc = (case findOne_trendId (trendId trendData) cur of
              Some existingTrend \<Rightarrow> assign existingTrend trendData
            | None \<Rightarrow> new_Trend now (fresh_id cur) trendData)"
  from Cons.prems have dist: "distinct (map doc_id cur)"
    by (simp add: upserted_def)
  have nd: "normalized doc = cast trendData"
    by (simp add: doc_def split: option.split)
  show ?case
  proof (cases "db doc")
    case (Some e)
    then have l: "storeTrends_loop db now (trendData # rest) cur acc = (cur, Inl e)"
      by (simp add: doc_def [symmetric] Let_def save_def)
    have "\<not> (\<forall>d. normalized d \<in> cast ` set (trendData # rest) \<longrightarrow> db d = None)"
    proof
      assume "\<forall>d. normalized d \<in> cast ` set (trendData # rest) \<longrightarrow> db d = None"
      moreover have "normalized doc \<in> cast ` set (trendData # rest)"
        by (simp add: nd)
      ultimately have "db doc = None" by blast
      with Some show False by simp
    qed
    moreover have "prefix [] (trendData # rest)" by simp
    moreover have "upserted store (saved @ []) (fst (storeTrends_loop db now (trendData # rest) cur acc))"
      using Cons.prems by (simp add: l del: storeTrends_loop.simps)
    moreover have "\<forall>docs. snd (storeTrends_loop db now (trendData # rest) cur acc) = Inr docs \<longrightarrow>
             [] = trendData # rest
             \<and> (\<exists>ds. docs = acc @ ds \<and> map normalized ds = map cast (trendData # rest))"
      by (simp add: l del: storeTrends_loop.simps)
    ultimately show ?thesis by (intro exI [of _ "[]"] conjI impI) simp_all
  next
    case None
    from upsert_step [where db = db and doc = doc and store = cur, OF None dist doc_def]
    obtain cur' where s: "save db doc cur = Inr cur'"
      and d1: "distinct (map doc_id cur')" and m1: "doc \<in> set cur'"
      and k1: "\<forall>x \<in> set cur. trendId x \<noteq> trendId trendData \<longrightarrow> x \<in> set cur'"
      and t1: "trendId doc = trendId trendData"
      by blast
    have l: "storeTrends_loop db now (trendData # rest) cur acc
               = storeTrends_loop db now rest cur' (acc @ [doc])"
      using s by (simp add: doc_def [symmetric] Let_def)
    have inv: "upserted store (saved @ [trendData]) cur'"
      using Cons.prems d1 m1 k1 t1 nd by (rule upserted_step)
    from Cons.IH [OF inv, of "acc @ [doc]"]
    obtain more where p: "prefix more rest"
      and u: "upserted store ((saved @ [trendData]) @ more)
                (fst (storeTrends_loop db now rest cur' (acc @ [doc])))"
      and r: "\<forall>docs. snd (storeTrends_loop db now rest cur' (acc @ [doc])) = Inr docs \<longrightarrow>
                more = rest
                \<and> (\<exists>ds. docs = (acc @ [doc]) @ ds \<and> map normalized ds = map cast rest)"
      and a: "(\<forall>d. normalized d \<in> cast ` set rest \<longrightarrow> db d = None) \<longrightarrow>
                (\<exists>docs. snd (storeTrends_loop db now rest cur' (acc @ [doc])) = Inr docs)"
      by blast
    show ?thesis
    proof (intro exI [of _ "trendData # more"] conjI allI impI)
      show "prefix (trendData # more) (trendData # rest)"
        using p by simp
      show "upserted store (saved @ trendData # more)
              (fst (storeTrends_loop db now (trendData # rest) cur acc))"
        using u by (simp add: l del: storeTrends_loop.simps)
      show "trendData # more = trendData # rest"
        if "snd (storeTrends_loop db now (trendData # rest) cur acc) = Inr docs" for docs
        using r that by (simp add: l del: storeTrends_loop.simps)
      show "\<exists>ds. docs = acc @ ds \<and> map normalized ds = map cast (trendData # rest)"
        if "snd (storeTrends_loop db now (trendData # rest) cur acc) = Inr docs" for docs
      proof -
        from r that obtain ds where "docs = (acc @ [doc]) @ ds"
          and "map normalized ds = map cast rest"
          unfolding l by blast
        then have "docs = acc @ (doc # ds) \<and> map normalized (doc # ds) = map cast (trendData # rest)"
          by (simp add: nd)
        then show ?thesis by (rule exI)
      qed
      show "\<exists>docs. snd (storeTrends_loop db now (trendData # rest) cur acc) = Inr docs"
        if "\<forall>d. normalized d \<in> cast ` set (trendData # rest) \<longrightarrow> db d = None"
      proof -
        from that have "\<forall>d. normalized d \<in> cast ` set rest \<longrightarrow> db d = None"
          by simp
        with a show ?thesis by (simp add: l del: storeTrends_loop.simps)
      qed
    qed
  qed
qed

lemma fetchAndStoreTrends_upserted:
  assumes "distinct (map doc_id store)"
  shows "\<exists>more. prefix more (delivered src now nicheFilter)
       \<and> upserted store more (fst (fetchAndStoreTrends db src now nicheFilter store))
       \<and> (\<forall>docs. snd (fetchAndStoreTrends db src now nicheFilter store) = Inr docs \<longrightarrow>
             more = delivered src now nicheFilter
             \<and> map normalized docs = map cast (delivered src now nicheFilter))
       \<and> ((\<forall>d. normalized d \<in> cast ` set (delivered src now nicheFilter) \<longrightarrow> db d = None) \<longrightarrow>
             (\<exists>docs. snd (fetchAndStoreTrends db src now nicheFilter store) = Inr docs))"
proof -
  let ?loop = "storeTrends_loop db now (delivered src now nicheFilter) store []"
  have f: "fst (fetchAndStoreTrends db src now nicheFilter store) = fst ?loop"
    by (simp add: fetchAndStoreTrends_delivered storeTrends_def split: prod.split sum.split)
  have s: "snd (fetchAndStoreTrends db src now nicheFilter store) = Inr docs
             \<longleftrightarrow> snd ?loop = Inr docs" for docs
    by (simp add: fetchAndStoreTrends_delivered storeTrends_def split: prod.split sum.split)
  from storeTrends_loop_upserted [OF upserted_start [OF assms],
    of "delivered src now nicheFilter" db now "[]"]
  show ?thesis
    unfolding f s by simp
qed

lemma fetchAndStoreTrends_keeps:
  assumes "distinct (map doc_id store)"
  shows "distinct (map doc_id (fst (fetchAndStoreTrends db src now nicheFilter store)))"
    and "trendId ` set store \<subseteq> trendId ` set (fst (fetchAndStoreTrends db src now nicheFilter store))"
proof -
  from fetchAndStoreTrends_upserted [OF assms, of src now nicheFilter db]
  obtain more where u: "upserted store more (fst (fetchAndStoreTrends db src now nicheFilter store))"
    by blast
  then show "distinct (map doc_id (fst (fetchAndStoreTrends db src now nicheFilter store)))"
    by (simp add: upserted_def)
  from u show "trendId ` set store
      \<subseteq> trendId ` set (fst (fetchAndStoreTrends db src now nicheFilter store))"
    by (rule upserted_keys)
qed

text \<open>The loop over the niches: a run over a list of niches is the run over its first part
  followed by the run over the rest; no run loses a key or a collected trend.\<close>

lemma fetchNicheTrends_loop_append:
  "fetchNicheTrends_loop db src now (xs @ ys) store acc
     = (case fetchNicheTrends_loop db src now xs store acc of
          (clock, mid, collected) \<Rightarrow> fetchNicheTrends_loop db src clock ys mid collected)"
proof (induction xs arbitrary: now store acc)
  case Nil
  show ?case by simp
next
  case (Cons x xs)
  show ?case
    by (cases "fetchAndStoreTrends db src now (Some x) store")
       (simp add: Cons.IH split: sum.split)
qed

lemma fetchNicheTrends_loop_keeps:
  "distinct (map doc_id store) \<Longrightarrow>
   fetchNicheTrends_loop db src now ns store acc = (clock, final, collected) \<Longrightarrow>
     distinct (map doc_id final) \<and> trendId ` set store \<subseteq> trendId ` set final
     \<and> (\<exists>more. collected = acc @ more)"
proof (induction ns arbitrary: now store acc)
  case Nil
  then show ?case by simp
next
  case (Cons n ns)
  obtain mid outcome where r: "fetchAndStoreTrends db src now (Some n) store = (mid, outcome)"
    by (cases "fetchAndStoreTrends db src now (Some n) store")
  from fetchAndStoreTrends_keeps [OF Cons.prems(1), of db src now "Some n"] r
  have d: "distinct (map doc_id mid)" and k: "trendId ` set store \<subseteq> trendId ` set mid"
    by simp_all
  show ?case
  proof (cases outcome)
    case (Inl e)
    with r Cons.prems(2)
    have "fetchNicheTrends_loop db src now ns mid acc = (clock, final, collected)"
      by simp
    from Cons.IH [OF d this] k show ?thesis by auto
  next
    case (Inr nicheTrends)
    with r Cons.prems(2)
    have "fetchNicheTrends_loop db src (now + 2000) ns mid (acc @ nicheTrends)
            = (clock, final, collected)"
      by simp
    from Cons.IH [OF d this] k show ?thesis by auto
  qed
qed

text \<open>
  Claim C6. Take a store with unique document identifiers. The callback of a scheduled job
  never throws: it ends normally with the store that its task left, whatever the task did; and
  the niche job itself always returns normally. One fetch-and-store run loses no key of the
  store and leaves alone every record whose key no platform delivered, whatever the sources and
  the database do. A platform whose fetch fails does not stop the others: when the database
  accepts the documents that carry the delivered items, that is the normalized items of the
  platforms whose source answered, the run returns one stored document for each of them, in
  order, carrying the item, and afterwards every delivered key has a record that carries a
  delivered item. A niche whose run fails does not stop the niche job: whatever happened for
  the earlier niches, the run for each niche of the list is made from the store and at the
  clock that the earlier ones left, the keys it leaves in the store are in the store at the
  end of the job, the trends it returns are part of the result of the job after those collected
  before, and when the database accepts its delivered items their keys are in the store at the
  end.
\<close>

theorem refresh_failure_isolated:
  assumes "distinct (map doc_id store)"
  shows "scheduledJob task store = (fst (task store), Inr ())
   \<and> fetchAllTrends db src now store = fetchAndStoreTrends db src now None store
   \<and> (\<exists>allTrends. snd (fetchNicheTrends db src now store) = Inr allTrends)
   \<and> trendId ` set store \<subseteq> trendId ` set (fst (fetchAndStoreTrends db src now nicheFilter store))
   \<and> (\<forall>d \<in> set store. trendId d \<notin> trendId ` set (delivered src now nicheFilter) \<longrightarrow>
          d \<in> set (fst (fetchAndStoreTrends db src now nicheFilter store)))
   \<and> ((\<forall>d. normalized d \<in> cast ` set (delivered src now nicheFilter) \<longrightarrow> db d = None) \<longrightarrow>
        (\<exists>storedTrends.
            snd (fetchAndStoreTrends db src now nicheFilter store) = Inr storedTrends
            \<and> map normalized storedTrends = map cast (delivered src now nicheFilter))
        \<and> (\<forall>td \<in> set (delivered src now nicheFilter).
              \<exists>d \<in> set (fst (fetchAndStoreTrends db src now nicheFilter store)).
                 trendId d = trendId td
                 \<and> normalized d \<in> cast ` set (delivered src now nicheFilter)))
   \<and> (popularNiches = earlier @ n # later
        \<and> fetchNicheTrends_loop db src now earlier store [] = (clock, mid, collected) \<longrightarrow>
        trendId ` set (fst (fetchAndStoreTrends db src clock (Some n) mid))
          \<subseteq> trendId ` set (fst (fetchNicheTrends db src now store))
        \<and> (\<forall>nicheTrends.
              snd (fetchAndStoreTrends db src clock (Some n) mid) = Inr nicheTrends \<longrightarrow>
              (\<exists>more. snd (fetchNicheTrends db src now store)
                        = Inr (collected @ nicheTrends @ more)))
        \<and> ((\<forall>d. normalized d \<in> cast ` set (delivered src clock (Some n)) \<longrightarrow> db d = None) \<longrightarrow>
              trendId ` set (delivered src clock (Some n))
                \<subseteq> trendId ` set (fst (fetchNicheTrends db src now store))))"
proof (intro conjI)
  show "scheduledJob task store = (fst (task store), Inr ())"
    by (simp add: scheduledJob_def split: prod.split sum.split)
  show "fetchAllTrends db src now store = fetchAndStoreTrends db src now None store"
    by (simp add: fetchAllTrends_def)
  show "\<exists>allTrends. snd (fetchNicheTrends db src now store) = Inr allTrends"
    by (simp add: fetchNicheTrends_def split: prod.split)
  show "trendId ` set store
          \<subseteq> trendId ` set (fst (fetchAndStoreTrends db src now nicheFilter store))"
    using assms by (rule fetchAndStoreTrends_keeps)
  from fetchAndStoreTrends_upserted [OF assms, of src now nicheFilter db]
  obtain saved where p: "prefix saved (delivered src now nicheFilter)"
    and u: "upserted store saved (fst (fetchAndStoreTrends db src now nicheFilter store))"
    and r: "\<forall>docs. snd (fetchAndStoreTrends db src now nicheFilter store) = Inr docs \<longrightarrow>
              saved = delivered src now nicheFilter
              \<and> map normalized docs = map cast (delivered src now nicheFilter)"
    and a: "(\<forall>d. normalized d \<in> cast ` set (delivered src now nicheFilter) \<longrightarrow> db d = None) \<longrightarrow>
              (\<exists>docs. snd (fetchAndStoreTrends db src now nicheFilter store) = Inr docs)"
    by blast
  from p have sub: "set saved \<subseteq> set (delivered src now nicheFilter)"
    by (rule set_mono_prefix)
  show "\<forall>d \<in> set store. trendId d \<notin> trendId ` set (delivered src now nicheFilter) \<longrightarrow>
          d \<in> set (fst (fetchAndStoreTrends db src now nicheFilter store))"
  proof (intro ballI impI)
    fix d
    assume d: "d \<in> set store"
      and "trendId d \<notin> trendId ` set (delivered src now nicheFilter)"
    with sub have "trendId d \<notin> trendId ` set saved" by blast
    with u d show "d \<in> set (fst (fetchAndStoreTrends db src now nicheFilter store))"
      unfolding upserted_def by simp
  qed
  show "(\<forall>d. normalized d \<in> cast ` set (delivered src now nicheFilter) \<longrightarrow> db d = None) \<longrightarrow>
        (\<exists>storedTrends.
            snd (fetchAndStoreTrends db src now nicheFilter store) = Inr storedTrends
            \<and> map normalized storedTrends = map cast (delivered src now nicheFilter))
        \<and> (\<forall>td \<in> set (delivered src now nicheFilter).
              \<exists>d \<in> set (fst (fetchAndStoreTrends db src now nicheFilter store)).
                 trendId d = trendId td
                 \<and> normalized d \<in> cast ` set (delivered src now nicheFilter))"
  proof (intro impI conjI)
    assume "\<forall>d. normalized d \<in> cast ` set (delivered src now nicheFilter) \<longrightarrow> db d = None"
    with a obtain docs where
      s: "snd (fetchAndStoreTrends db src now nicheFilter store) = Inr docs"
      by blast
    with r have all: "saved = delivered src now nicheFilter"
      and n: "map normalized docs = map cast (delivered src now nicheFilter)"
      by simp_all
    from s n show "\<exists>storedTrends.
            snd (fetchAndStoreTrends db src now nicheFilter store) = Inr storedTrends
            \<and> map normalized storedTrends = map cast (delivered src now nicheFilter)"
      by (intro exI conjI)
    from u show "\<forall>td \<in> set (delivered src now nicheFilter).
              \<exists>d \<in> set (fst (fetchAndStoreTrends db src now nicheFilter store)).
                 trendId d = trendId td
                 \<and> normalized d \<in> cast ` set (delivered src now nicheFilter)"
      unfolding upserted_def all by (elim conjE)
  qed
  show "popularNiches = earlier @ n # later
        \<and> fetchNicheTrends_loop db src now earlier store [] = (clock, mid, collected) \<longrightarrow>
        trendId ` set (fst (fetchAndStoreTrends db src clock (Some n) mid))
          \<subseteq> trendId ` set (fst (fetchNicheTrends db src now store))
        \<and> (\<forall>nicheTrends.
              snd (fetchAndStoreTrends db src clock (Some n) mid) = Inr nicheTrends \<longrightarrow>
              (\<exists>more. snd (fetchNicheTrends db src now store)
                        = Inr (collected @ nicheTrends @ more)))
        \<and> ((\<forall>d. normalized d \<in> cast ` set (delivered src clock (Some n)) \<longrightarrow> db d = None) \<longrightarrow>
              trendId ` set (delivered src clock (Some n))
                \<subseteq> trendId ` set (fst (fetchNicheTrends db src now store)))"
  proof (intro impI conjI; elim conjE)
    assume niches: "popularNiches = earlier @ n # later"
      and first: "fetchNicheTrends_loop db src now earlier store [] = (clock, mid, collected)"
    let ?run = "fetchAndStoreTrends db src clock (Some n) mid"
    from fetchNicheTrends_loop_keeps [OF assms first]
    have dm: "distinct (map doc_id mid)" by simp
    then have dr: "distinct (map doc_id (fst ?run))"
      by (rule fetchAndStoreTrends_keeps)
    obtain clock' final result where
      rest: "fetchNicheTrends_loop db src
               (case snd ?run of Inl e \<Rightarrow> clock | Inr nicheTrends \<Rightarrow> clock + 2000) later (fst ?run)
               (case snd ?run of Inl e \<Rightarrow> collected | Inr nicheTrends \<Rightarrow> collected @ nicheTrends)
             = (clock', final, result)"
      by (metis prod_cases3)
    have step: "fetchNicheTrends_loop db src clock (n # later) mid collected
                  = (clock', final, result)"
      using rest by (cases ?run) (simp split: sum.splits)
    have "fetchNicheTrends_loop db src now popularNiches store []
            = fetchNicheTrends_loop db src clock (n # later) mid collected"
      unfolding niches fetchNicheTrends_loop_append first by simp
    with step have job: "fetchNicheTrends db src now store = (final, Inr result)"
      by (simp add: fetchNicheTrends_def)
    from fetchNicheTrends_loop_keeps [OF dr rest]
    have keys: "trendId ` set (fst ?run) \<subseteq> trendId ` set final"
      and more: "\<exists>more. result
                   = (case snd ?run of Inl e \<Rightarrow> collected
                      | Inr nicheTrends \<Rightarrow> collected @ nicheTrends) @ more"
      by simp_all
    show "trendId ` set (fst ?run) \<subseteq> trendId ` set (fst (fetchNicheTrends db src now store))"
      using keys by (simp add: job)
    show "\<forall>nicheTrends. snd ?run = Inr nicheTrends \<longrightarrow>
            (\<exists>more. snd (fetchNicheTrends db src now store)
                      = Inr (collected @ nicheTrends @ more))"
      using more by (auto simp: job)
    show "trendId ` set (delivered src clock (Some n))
            \<subseteq> trendId ` set (fst (fetchNicheTrends db src now store))"
      if acc: "\<forall>d. normalized d \<in> cast ` set (delivered src clock (Some n)) \<longrightarrow> db d = None"
    proof -
      from fetchAndStoreTrends_upserted [OF dm, of src clock "Some n" db]
      obtain saved where
        u: "upserted mid saved (fst ?run)"
        and r: "\<forall>docs. snd ?run = Inr docs \<longrightarrow>
                  saved = delivered src clock (Some n)
                  \<and> map normalized docs = map cast (delivered src clock (Some n))"
        and a: "(\<forall>d. normalized d \<in> cast ` set (delivered src clock (Some n)) \<longrightarrow> db d = None)
                  \<longrightarrow> (\<exists>docs. snd ?run = Inr docs)"
        by blast
      from a acc obtain docs where "snd ?run = Inr docs" by blast
      with r have all: "saved = delivered src clock (Some n)" by simp
      have "trendId ` set (delivered src clock (Some n)) \<subseteq> trendId ` set (fst ?run)"
      proof
        fix k
        assume "k \<in> trendId ` set (delivered src clock (Some n))"
        then obtain td where td: "td \<in> set (delivered src clock (Some n))"
          and k: "k = trendId td" by auto
        with u obtain d where "d \<in> set (fst ?run)" and "trendId d = trendId td"
          unfolding upserted_def all by blast
        with k show "k \<in> trendId ` set (fst ?run)" by (metis imageI)
      qed
      with keys show ?thesis
        by (simp add: job)
    qed
  qed
qed

text \<open>Two runs under the validators of the schema, from an empty store at time 1000. In the
  first the YouTube request fails while the mock generators serve the other two platforms; the
  same run from a store that holds a record ingested at time 500 leaves that record alone. In
  the second TikTok returns an item without title for the niche \<open>fitness\<close>: the run for that
  niche stores the Instagram item and fails on the TikTok one, and the job goes on with the
  niche \<open>beauty\<close>.\<close>

definition youtube_down :: sources where
  "youtube_down =
     \<lparr>instagram_source = (\<lambda>n. Inr (generateMockInstagramTrends n)),
      tiktok_source = (\<lambda>n. Inr (generateMockTikTokTrends n)),
      youtube_mock = (\<lambda>n. Inr (generateMockYouTubeTrends n)),
      youtube_api_key = True,
      youtube_api = Inl (Error ''Request failed with status code 403'')\<rparr>"

definition untitled_tiktok :: sources where
  "untitled_tiktok =
     \<lparr>instagram_source = (\<lambda>n. Inr (generateMockInstagramTrends n)),
      tiktok_source =
        (\<lambda>n. if n = Some ''fitness''
              then Inr [(mock_item ''tt_trend_9'' [] ''No title'' [] None 10 1 1 1 [''fitness'']
                           [] None)\<lparr>r_title := None\<rparr>]
              else Inr (generateMockTikTokTrends n)),
      youtube_mock = (\<lambda>n. Inr (generateMockYouTubeTrends n)),
      youtube_api_key = False,
      youtube_api = Inr []\<rparr>"

definition earlier_record :: trend where
  "earlier_record =
     new_Trend 500 1
       (normalizeTrendData 500 ''instagram''
          (mock_item ''ig_trend_1'' ''Morning Routine Aesthetic''
             ''Start your day with intention and style''
             [''morningroutine'', ''aesthetic'', ''selfcare'', ''lifestyle''] None
             250000 15000 800 1200 [''lifestyle'', ''beauty''] ''https://example.com/thumb1.jpg''
             None))"

lemma trend_schema_accepts:
  assumes "list_all (\<lambda>td. platform td \<in> set [''instagram'', ''tiktok'', ''youtube'']
                          \<and> trendId td \<noteq> [] \<and> title td \<noteq> []
                          \<and> 0 \<le> relevanceScore td \<and> relevanceScore td \<le> 100) items"
  shows "\<forall>d. normalized d \<in> cast ` set items \<longrightarrow> trend_schema d = None"
proof (intro allI impI)
  fix d
  assume "normalized d \<in> cast ` set items"
  then obtain td where td: "td \<in> set items" and n: "normalized d = cast td"
    by auto
  from n have "platform (normalized d) = platform (cast td)"
    and "trendId (normalized d) = trendId (cast td)"
    and "title (normalized d) = title (cast td)"
    and "relevanceScore (normalized d) = relevanceScore (cast td)"
    by simp_all
  then have "platform d = platform td" and "trendId d = trendId td" and "title d = title td"
    and "relevanceScore d = relevanceScore td"
    by (simp_all add: normalized_def cast_def)
  moreover from assms td
  have "platform td \<in> set [''instagram'', ''tiktok'', ''youtube'']
          \<and> trendId td \<noteq> [] \<and> title td \<noteq> []
          \<and> 0 \<le> relevanceScore td \<and> relevanceScore td \<le> 100"
    unfolding list_all_iff by (rule bspec)
  ultimately show "trend_schema d = None"
    by (simp add: trend_schema_def)
qed

theorem refresh_failure_isolated_witness:
  "fetchYouTubeTrends youtube_down 1000 None = Inl (Error ''Failed to fetch YouTube trends'')
   \<and> map trendId (delivered youtube_down 1000 None)
       = [''instagram_ig_trend_1_1000'', ''instagram_ig_trend_2_1000'',
          ''tiktok_tt_trend_1_1000'', ''tiktok_tt_trend_2_1000'']
   \<and> map trendId (fst (fetchAllTrends trend_schema youtube_down 1000 []))
       = [''instagram_ig_trend_1_1000'', ''instagram_ig_trend_2_1000'',
          ''tiktok_tt_trend_1_1000'', ''tiktok_tt_trend_2_1000'']
   \<and> (\<exists>storedTrends.
         snd (fetchAndStoreTrends trend_schema youtube_down 1000 None []) = Inr storedTrends
         \<and> map normalized storedTrends = map cast (delivered youtube_down 1000 None))
   \<and> scheduledJob (fetchAllTrends trend_schema youtube_down 1000) []
       = (fst (fetchAllTrends trend_schema youtube_down 1000 []), Inr ())
   \<and> trendId earlier_record = ''instagram_ig_trend_1_500''
   \<and> earlier_record
       \<in> set (fst (fetchAndStoreTrends trend_schema youtube_down 1000 None [earlier_record]))
   \<and> popularNiches = [''fitness''] @ ''beauty''
        # [''food'', ''travel'', ''tech'', ''lifestyle'', ''entertainment'', ''education'']
   \<and> fetchAndStoreTrends trend_schema untitled_tiktok 1000 (Some ''fitness'') []
       = (fst (fetchAndStoreTrends trend_schema untitled_tiktok 1000 (Some ''fitness'') []),
          Inl (Error ''Failed to store trends in database''))
   \<and> map trendId (fst (fetchAndStoreTrends trend_schema untitled_tiktok 1000 (Some ''fitness'') []))
       = [''instagram_ig_trend_2_1000'']
   \<and> map trendId (delivered untitled_tiktok 1000 (Some ''beauty''))
       = [''instagram_ig_trend_1_1000'']
   \<and> {''instagram_ig_trend_2_1000'', ''instagram_ig_trend_1_1000''}
       \<subseteq> trendId ` set (fst (fetchNicheTrends trend_schema untitled_tiktok 1000 []))
   \<and> scheduledJob (fetchNicheTrends trend_schema untitled_tiktok 1000) []
       = (fst (fetchNicheTrends trend_schema untitled_tiktok 1000 []), Inr ())"
proof -
  have d0: "distinct (map doc_id ([] :: trend list))"
    by simp
  define mid where
    "mid = fst (fetchAndStoreTrends trend_schema untitled_tiktok 1000 (Some ''fitness'') [])"
  note down = refresh_failure_isolated
    [OF d0, where db = trend_schema and src = youtube_down and now = 1000
       and nicheFilter = None and task = "fetchAllTrends trend_schema youtube_down 1000"]
  note skip = refresh_failure_isolated
    [OF d0, where db = trend_schema and src = untitled_tiktok and now = 1000
       and task = "fetchNicheTrends trend_schema untitled_tiktok 1000"
       and earlier = "[''fitness'']" and n = "''beauty''"
       and later = "[''food'', ''travel'', ''tech'', ''lifestyle'', ''entertainment'',
                     ''education'']"
       and clock = 1000 and mid = mid and collected = "[]"]
  have yt: "fetchYouTubeTrends youtube_down 1000 None
              = Inl (Error ''Failed to fetch YouTube trends'')"
    by (simp add: fetchYouTubeTrends_def youtube_down_def)
  have del: "map trendId (delivered youtube_down 1000 None)
       = [''instagram_ig_trend_1_1000'', ''instagram_ig_trend_2_1000'',
          ''tiktok_tt_trend_1_1000'', ''tiktok_tt_trend_2_1000'']"
    by code_simp
  have ids: "map trendId (fst (fetchAllTrends trend_schema youtube_down 1000 []))
       = [''instagram_ig_trend_1_1000'', ''instagram_ig_trend_2_1000'',
          ''tiktok_tt_trend_1_1000'', ''tiktok_tt_trend_2_1000'']"
    by code_simp
  have "list_all (\<lambda>td. platform td \<in> set [''instagram'', ''tiktok'', ''youtube'']
                          \<and> trendId td \<noteq> [] \<and> title td \<noteq> []
                          \<and> 0 \<le> relevanceScore td \<and> relevanceScore td \<le> 100)
          (delivered youtube_down 1000 None)"
    by code_simp
  then have acc: "\<forall>d. normalized d \<in> cast ` set (delivered youtube_down 1000 None)
                    \<longrightarrow> trend_schema d = None"
    by (rule trend_schema_accepts)
  from down [THEN conjunct2, THEN conjunct2, THEN conjunct2, THEN conjunct2, THEN conjunct2,
    THEN conjunct1, THEN mp, OF acc]
  have stored: "\<exists>storedTrends.
         snd (fetchAndStoreTrends trend_schema youtube_down 1000 None []) = Inr storedTrends
         \<and> map normalized storedTrends = map cast (delivered youtube_down 1000 None)"
    by (rule conjunct1)
  have job: "scheduledJob (fetchAllTrends trend_schema youtube_down 1000) []
       = (fst (fetchAllTrends trend_schema youtube_down 1000 []), Inr ())"
    by (rule down [THEN conjunct1])
  note again = refresh_failure_isolated
    [where store = "[earlier_record]" and db = trend_schema and src = youtube_down
       and now = 1000 and nicheFilter = None,
     THEN conjunct2, THEN conjunct2, THEN conjunct2, THEN conjunct2, THEN conjunct1]
  have tid: "trendId earlier_record = ''instagram_ig_trend_1_500''"
    by code_simp
  have "distinct (map doc_id [earlier_record])"
    by simp
  then have "\<forall>d \<in> set [earlier_record].
          trendId d \<notin> trendId ` set (delivered youtube_down 1000 None) \<longrightarrow>
          d \<in> set (fst (fetchAndStoreTrends trend_schema youtube_down 1000 None
                          [earlier_record]))"
    by (rule again)
  moreover have "earlier_record \<in> set [earlier_record]"
    by simp
  moreover have "trendId earlier_record \<notin> trendId ` set (delivered youtube_down 1000 None)"
    using del [THEN arg_cong, of set] by (simp add: tid)
  ultimately have untouched: "earlier_record
       \<in> set (fst (fetchAndStoreTrends trend_schema youtube_down 1000 None [earlier_record]))"
    by blast
  have niches: "popularNiches = [''fitness''] @ ''beauty''
        # [''food'', ''travel'', ''tech'', ''lifestyle'', ''entertainment'', ''education'']"
    by (simp add: popularNiches_def)
  have "snd (fetchAndStoreTrends trend_schema untitled_tiktok 1000 (Some ''fitness'') [])
          = Inl (Error ''Failed to store trends in database'')"
    by code_simp
  then have fails: "fetchAndStoreTrends trend_schema untitled_tiktok 1000 (Some ''fitness'') []
                      = (mid, Inl (Error ''Failed to store trends in database''))"
    by (simp add: mid_def prod_eq_iff)
  have kept: "map trendId mid = [''instagram_ig_trend_2_1000'']"
    unfolding mid_def by code_simp
  have first: "fetchNicheTrends_loop trend_schema untitled_tiktok 1000 [''fitness''] [] []
                 = (1000, mid, [])"
    by (simp add: fails)
  have beauty: "map trendId (delivered untitled_tiktok 1000 (Some ''beauty''))
                  = [''instagram_ig_trend_1_1000'']"
    by code_simp
  have "list_all (\<lambda>td. platform td \<in> set [''instagram'', ''tiktok'', ''youtube'']
                          \<and> trendId td \<noteq> [] \<and> title td \<noteq> []
                          \<and> 0 \<le> relevanceScore td \<and> relevanceScore td \<le> 100)
          (delivered untitled_tiktok 1000 (Some ''beauty''))"
    by code_simp
  then have acc': "\<forall>d. normalized d \<in> cast ` set (delivered untitled_tiktok 1000 (Some ''beauty''))
                     \<longrightarrow> trend_schema d = None"
    by (rule trend_schema_accepts)
  note start = refresh_failure_isolated
    [OF d0, where db = trend_schema and src = untitled_tiktok and now = 1000
       and earlier = "[]" and n = "''fitness''"
       and later = "[''beauty'', ''food'', ''travel'', ''tech'', ''lifestyle'', ''entertainment'',
                     ''education'']"
       and clock = 1000 and mid = "[]" and collected = "[]",
     THEN conjunct2, THEN conjunct2, THEN conjunct2, THEN conjunct2, THEN conjunct2,
     THEN conjunct2, THEN mp, THEN conjunct1]
  have "popularNiches = [] @ ''fitness''
          # [''beauty'', ''food'', ''travel'', ''tech'', ''lifestyle'', ''entertainment'',
             ''education'']
        \<and> fetchNicheTrends_loop trend_schema untitled_tiktok 1000 [] [] [] = (1000, [], [])"
    by (simp add: popularNiches_def)
  then have "trendId ` set mid
               \<subseteq> trendId ` set (fst (fetchNicheTrends trend_schema untitled_tiktok 1000 []))"
    unfolding mid_def by (rule start)
  moreover have "trendId ` set mid = {''instagram_ig_trend_2_1000''}"
    using kept [THEN arg_cong, of set] by (simp only: set_map set_simps)
  ultimately have k2: "''instagram_ig_trend_2_1000''
      \<in> trendId ` set (fst (fetchNicheTrends trend_schema untitled_tiktok 1000 []))"
    by simp
  note run = skip [THEN conjunct2, THEN conjunct2, THEN conjunct2, THEN conjunct2,
    THEN conjunct2, THEN conjunct2, THEN mp, OF conjI, OF niches first]
  from run [THEN conjunct2, THEN conjunct2, THEN mp, OF acc']
  have "trendId ` set (delivered untitled_tiktok 1000 (Some ''beauty''))
          \<subseteq> trendId ` set (fst (fetchNicheTrends trend_schema untitled_tiktok 1000 []))" .
  moreover have "trendId ` set (delivered untitled_tiktok 1000 (Some ''beauty''))
                   = {''instagram_ig_trend_1_1000''}"
    using beauty [THEN arg_cong, of set] by (simp only: set_map set_simps)
  ultimately have k1: "''instagram_ig_trend_1_1000''
      \<in> trendId ` set (fst (fetchNicheTrends trend_schema untitled_tiktok 1000 []))"
    by simp
  from k2 k1 have keys: "{''instagram_ig_trend_2_1000'', ''instagram_ig_trend_1_1000''}
       \<subseteq> trendId ` set (fst (fetchNicheTrends trend_schema untitled_tiktok 1000 []))"
    by simp
  have njob: "scheduledJob (fetchNicheTrends trend_schema untitled_tiktok 1000) []
       = (fst (fetchNicheTrends trend_schema untitled_tiktok 1000 []), Inr ())"
    by (rule skip [THEN conjunct1])
  from yt del ids stored job tid untouched niches fails [unfolded mid_def] kept [unfolded mid_def] beauty keys
    njob
  show ?thesis
    by (intro conjI)
qed

end
